theory Spec2Isabelle
  imports Complex_Main "HOL-Library.Word"
begin

section \<open>Signaling codec: \<open>encodeForURL\<close> and \<open>decodeFromURL\<close>\<close>

text \<open>
  Both components of \<^verbatim>\<open>PongGame.tsx\<close> (the paddle game and \<^verbatim>\<open>MultiSnake\<close>) carry the
  same two functions:
  \<^verbatim>\<open>
  function encodeForURL(data: object): string {
    const jsonStr = JSON.stringify(data);
    const compressed = pako.gzip(jsonStr);
    const base64 = btoa(String.fromCharCode(...compressed));
    return base64.replace(/\+/g, "-").replace(/\//g, "_").replace(/=+$/, "");
  }
  function decodeFromURL(encoded: string): object {
    let base64 = encoded.replace(/-/g, "+").replace(/_/g, "/");
    while (base64.length % 4) base64 += "=";
    const binary = atob(base64);
    const bytes = new Uint8Array(binary.length);
    for (let i = 0; i < binary.length; i++) bytes[i] = binary.charCodeAt(i);
    const decompressed = pako.ungzip(bytes, { to: "string" });
    return JSON.parse(decompressed);
  }
  \<close>
  \<open>JSON.stringify\<close>, \<open>JSON.parse\<close>, \<open>pako.gzip\<close> and \<open>pako.ungzip\<close> are library
  functions outside the repository: they are parameters of the model. The browser's
  \<open>btoa\<close> and \<open>atob\<close> are written out (RFC 4648 alphabet with padding; \<open>atob\<close> is the
  forgiving decoder: it skips ASCII whitespace, drops one or two trailing \<open>=\<close> when the
  length is a multiple of four, and fails on a length of 1 modulo 4 and on every
  character outside the alphabet). A \<open>Uint8Array\<close> is a list of \<open>8 word\<close>; the binary
  string between \<open>btoa\<close>/\<open>atob\<close> and the array has one character per byte, so it is
  not a separate type here; the limit an engine puts on the number of arguments of
  \<open>String.fromCharCode(...compressed)\<close> is not modelled. Every exception of the source is
  the value \<open>None\<close>.
\<close>

type_synonym byte = "8 word"

definition b64chars :: string where
  "b64chars = ''ABCDEFGHIJKLMNOPQRSTUVWXYZabcdefghijklmnopqrstuvwxyz0123456789+/''"

definition b64char :: "nat \<Rightarrow> char" where
  "b64char n = b64chars ! n"

definition b64index :: "char \<Rightarrow> nat option" where
  "b64index c = map_of (zip b64chars [0..<64]) c"

text \<open>Three bytes make four six-bit digits; a last group of one or two bytes makes two or three.\<close>

fun sextets :: "nat list \<Rightarrow> nat list" where
  "sextets [] = []"
| "sextets [a] = [a div 4, (a mod 4) * 16]"
| "sextets [a, b] = [a div 4, (a mod 4) * 16 + b div 16, (b mod 16) * 4]"
| "sextets (a # b # c # rest) =
     [a div 4, (a mod 4) * 16 + b div 16, (b mod 16) * 4 + c div 64, c mod 64] @ sextets rest"

definition btoa :: "byte list \<Rightarrow> string" where
  "btoa bytes = map b64char (sextets (map unat bytes))
                @ replicate ((3 - length bytes mod 3) mod 3) (CHR ''='')"

text \<open>The inverse grouping; leftover low bits of a last partial group are discarded.\<close>

fun unsextets :: "nat list \<Rightarrow> nat list option" where
  "unsextets [] = Some []"
| "unsextets [s0] = None"
| "unsextets [s0, s1] = Some [s0 * 4 + s1 div 16]"
| "unsextets [s0, s1, s2] = Some [s0 * 4 + s1 div 16, (s1 mod 16) * 16 + s2 div 4]"
| "unsextets (s0 # s1 # s2 # s3 # rest) =
     map_option (\<lambda>r. [s0 * 4 + s1 div 16, (s1 mod 16) * 16 + s2 div 4, (s2 mod 4) * 64 + s3] @ r)
       (unsextets rest)"

definition ascii_whitespace :: "char \<Rightarrow> bool" where
  "ascii_whitespace c \<longleftrightarrow> c \<in> set [char_of (9::nat), char_of (10::nat), char_of (12::nat),
                                      char_of (13::nat), CHR '' '']"

definition strip_padding :: "string \<Rightarrow> string" where
  "strip_padding s =
     (if length s mod 4 = 0 \<and> s \<noteq> [] \<and> last s = CHR ''='' then
        (if butlast s \<noteq> [] \<and> last (butlast s) = CHR ''='' then butlast (butlast s)
         else butlast s)
      else s)"

fun all_some :: "'a option list \<Rightarrow> 'a list option" where
  "all_some [] = Some []"
| "all_some (None # xs) = None"
| "all_some (Some x # xs) = map_option ((#) x) (all_some xs)"

definition atob :: "string \<Rightarrow> byte list option" where
  "atob s =
     (let d = strip_padding (filter (\<lambda>c. \<not> ascii_whitespace c) s) in
      if length d mod 4 = 1 then None
      else case all_some (map b64index d) of
             None \<Rightarrow> None
           | Some ds \<Rightarrow> map_option (map of_nat) (unsextets ds))"

text \<open>\<open>s.replace(/x/g, "y")\<close> for single characters, and \<open>s.replace(/=+$/, "")\<close>.\<close>

definition replace_all :: "char \<Rightarrow> char \<Rightarrow> string \<Rightarrow> string" where
  "replace_all x y s = map (\<lambda>c. if c = x then y else c) s"

definition strip_trailing_eq :: "string \<Rightarrow> string" where
  "strip_trailing_eq s = rev (dropWhile (\<lambda>c. c = CHR ''='') (rev s))"

definition encodeForURL :: "('d \<Rightarrow> string) \<Rightarrow> (string \<Rightarrow> byte list) \<Rightarrow> 'd \<Rightarrow> string" where
  "encodeForURL stringify gzip data =
     (let jsonStr = stringify data;
          compressed = gzip jsonStr;
          base64 = btoa compressed
      in strip_trailing_eq (replace_all (CHR ''/'') (CHR ''_'') (replace_all (CHR ''+'') (CHR ''-'') base64)))"

text \<open>The loop \<^verbatim>\<open>while (base64.length % 4) base64 += "="\<close>.\<close>

function pad4 :: "string \<Rightarrow> string" where
  "pad4 base64 = (if length base64 mod 4 \<noteq> 0 then pad4 (base64 @ ''='') else base64)"
  by pat_completeness auto
termination
proof (relation "measure (\<lambda>s. (4 - length s mod 4) mod 4)")
  show "wf (measure (\<lambda>s::string. (4 - length s mod 4) mod 4))" by simp
next
  fix base64 :: string
  assume a: "length base64 mod 4 \<noteq> 0"
  define m where "m = length base64 mod 4"
  have b: "m < 4" by (simp add: m_def)
  have c: "Suc (length base64) mod 4 = Suc m mod 4" by (simp add: m_def mod_Suc_eq)
  from a b have "m = 1 \<or> m = 2 \<or> m = 3" unfolding m_def by linarith
  then have "(4 - Suc m mod 4) mod 4 < (4 - m) mod 4" by auto
  then show "(base64 @ ''='', base64) \<in> measure (\<lambda>s. (4 - length s mod 4) mod 4)"
    using c by (simp add: m_def)
qed

declare pad4.simps [simp del]

definition decodeFromURL ::
  "(byte list \<Rightarrow> string option) \<Rightarrow> (string \<Rightarrow> 'd option) \<Rightarrow> string \<Rightarrow> 'd option" where
  "decodeFromURL ungzip parse encoded =
     (let base64 = pad4 (replace_all (CHR ''_'') (CHR ''/'') (replace_all (CHR ''-'') (CHR ''+'') encoded))
      in case atob base64 of
           None \<Rightarrow> None
         | Some bytes \<Rightarrow>
             (case ungzip bytes of
                None \<Rightarrow> None
              | Some decompressed \<Rightarrow> parse decompressed))"

text \<open>The two replacements of each direction, composed, as one function on characters.\<close>

definition url_safe :: "char \<Rightarrow> char" where
  "url_safe c = (let c1 = (if c = CHR ''+'' then CHR ''-'' else c) in if c1 = CHR ''/'' then CHR ''_'' else c1)"

definition url_unsafe :: "char \<Rightarrow> char" where
  "url_unsafe c = (let c1 = (if c = CHR ''-'' then CHR ''+'' else c) in if c1 = CHR ''_'' then CHR ''/'' else c1)"

section \<open>JavaScript values on the wire\<close>

text \<open>
  Every channel message is sent as \<open>JSON.stringify(v)\<close> and read with
  \<open>JSON.parse(event.data)\<close>. The model keeps the parsed value: \<open>json\<close> is what
  \<open>JSON.parse\<close> can return, \<open>jsval\<close> adds \<open>undefined\<close> (\<open>None\<close>), the value of a missing
  property. A \<open>number\<close> is a real: IEEE rounding, \<open>NaN\<close> and the infinities are not
  modelled. The sent messages are recorded as \<open>json\<close> values, in the order of the
  \<open>send\<close> calls.
\<close>

datatype json = JNull | JBool bool | JNum real | JStr string
  | JArr "json list" | JObj "(string \<times> json) list"

type_synonym jsval = "json option"

text \<open>
  What escapes a handler: \<open>SyntaxError\<close> from \<open>JSON.parse\<close>, \<open>TypeError\<close> from reading a
  property of \<open>undefined\<close> or \<open>null\<close>, \<open>InvalidStateError\<close> from \<open>send\<close> on a channel that
  is not open. \<open>NoReturn\<close> stands for a loop that has not returned on the random draws
  it was given, \<open>Unmodelled\<close> for JavaScript behaviour outside this model (arithmetic on
  values that are not numbers). A handler's outcome is the exception that escaped it,
  if any, and the state it left behind.
\<close>

datatype fault = SyntaxError | TypeError | InvalidStateError | NoReturn | Unmodelled

type_synonym 's outcome = "fault option \<times> 's"

text \<open>
  \<open>v.k\<close> for a \<open>v\<close> that is neither \<open>undefined\<close> nor \<open>null\<close>, for the property names the
  handlers read (none of them exists on a number, a boolean, a string or an array).
  \<open>JSON.parse\<close> keeps the last of several equal keys.
\<close>

fun member :: "json \<Rightarrow> string \<Rightarrow> jsval" where
  "member (JObj kvs) k = map_of (rev kvs) k"
| "member _ k = None"

fun truthy :: "jsval \<Rightarrow> bool" where
  "truthy None = False"
| "truthy (Some JNull) = False"
| "truthy (Some (JBool b)) = b"
| "truthy (Some (JNum r)) = (r \<noteq> 0)"
| "truthy (Some (JStr s)) = (s \<noteq> [])"
| "truthy (Some (JArr _)) = True"
| "truthy (Some (JObj _)) = True"

text \<open>
  \<open>a !== b\<close> where \<open>a\<close> comes out of the message just parsed: primitives compare by
  value, an object or array of a fresh parse is identical to nothing else.
\<close>

fun strict_neq :: "jsval \<Rightarrow> jsval \<Rightarrow> bool" where
  "strict_neq (Some (JArr xs)) b = True"
| "strict_neq (Some (JObj kvs)) b = True"
| "strict_neq a b = (a \<noteq> b)"

text \<open>\<open>v ?? d\<close>.\<close>

fun nullish_or :: "jsval \<Rightarrow> json \<Rightarrow> json" where
  "nullish_or None d = d"
| "nullish_or (Some JNull) d = d"
| "nullish_or (Some v) d = v"

text \<open>
  A reference to the world state holds either an object of the game's \<open>GameState\<close> shape
  (\<open>WS\<close>) or whatever else a message assigned to it (\<open>Raw\<close>).
\<close>

datatype 'g wstate = WS 'g | Raw jsval

datatype Role = RoleNone | Host | Guest

datatype readyState = Connecting | Open | Closing | Closed

section \<open>The paddle game: component \<open>PongGame\<close>\<close>

abbreviation CANVAS_WIDTH :: real where "CANVAS_WIDTH \<equiv> 800"
abbreviation CANVAS_HEIGHT :: real where "CANVAS_HEIGHT \<equiv> 560"
abbreviation PADDLE_WIDTH :: real where "PADDLE_WIDTH \<equiv> 60"
abbreviation PADDLE_HEIGHT :: real where "PADDLE_HEIGHT \<equiv> 88"
abbreviation BALL_SIZE :: real where "BALL_SIZE \<equiv> 16"
abbreviation DEFAULT_BALL_SPEED :: real where "DEFAULT_BALL_SPEED \<equiv> 5"
abbreviation PADDLE_SPEED :: real where "PADDLE_SPEED \<equiv> 8"

datatype PongPhase = PIdle | PLobby | PCountdown | PPlaying

text \<open>
  \<^verbatim>\<open>interface GameState { ball: { x; y; vx; vy }; paddle1Y; paddle2Y; score1; score2 }\<close>.
  The fields of \<open>ball\<close> are \<open>ball_x\<close>, \<open>ball_y\<close>, \<open>ball_vx\<close>, \<open>ball_vy\<close> here.
\<close>

record Ball =
  ball_x :: real
  ball_y :: real
  ball_vx :: real
  ball_vy :: real

record GameState =
  ball :: Ball
  paddle1Y :: real
  paddle2Y :: real
  score1 :: real
  score2 :: real

definition json_of_Ball :: "Ball \<Rightarrow> json" where
  "json_of_Ball b = JObj [(''x'', JNum (ball_x b)), (''y'', JNum (ball_y b)),
                          (''vx'', JNum (ball_vx b)), (''vy'', JNum (ball_vy b))]"

definition json_of_GameState :: "GameState \<Rightarrow> json" where
  "json_of_GameState g = JObj [(''ball'', json_of_Ball (ball g)),
     (''paddle1Y'', JNum (paddle1Y g)), (''paddle2Y'', JNum (paddle2Y g)),
     (''score1'', JNum (score1 g)), (''score2'', JNum (score2 g))]"

definition num_member :: "json \<Rightarrow> string \<Rightarrow> real option" where
  "num_member v k = (case member v k of Some (JNum r) \<Rightarrow> Some r | _ \<Rightarrow> None)"

text \<open>A parsed value is of the \<open>GameState\<close> shape when it is what a \<open>GameState\<close> serialises to.\<close>

definition GameState_of_json :: "json \<Rightarrow> GameState option" where
  "GameState_of_json j =
     Option.bind (member j ''ball'') (\<lambda>b.
     Option.bind (num_member b ''x'') (\<lambda>x.
     Option.bind (num_member b ''y'') (\<lambda>y.
     Option.bind (num_member b ''vx'') (\<lambda>vx.
     Option.bind (num_member b ''vy'') (\<lambda>vy.
     Option.bind (num_member j ''paddle1Y'') (\<lambda>p1.
     Option.bind (num_member j ''paddle2Y'') (\<lambda>p2.
     Option.bind (num_member j ''score1'') (\<lambda>s1.
     Option.bind (num_member j ''score2'') (\<lambda>s2.
       let g = \<lparr>ball = \<lparr>ball_x = x, ball_y = y, ball_vx = vx, ball_vy = vy\<rparr>,
                paddle1Y = p1, paddle2Y = p2, score1 = s1, score2 = s2\<rparr>
       in if json_of_GameState g = j then Some g else None)))))))))"

definition to_wstate :: "(json \<Rightarrow> 'g option) \<Rightarrow> jsval \<Rightarrow> 'g wstate" where
  "to_wstate of_json v =
     (case v of None \<Rightarrow> Raw None
      | Some j \<Rightarrow> (case of_json j of Some g \<Rightarrow> WS g | None \<Rightarrow> Raw (Some j)))"

text \<open>
  The session: the refs and React state of the component that the protocol reads or
  writes. \<open>roleRef\<close> and \<open>role\<close>, \<open>gamePhaseRef\<close> and \<open>gamePhase\<close>, \<open>ballSpeedRef\<close> and
  \<open>ballSpeed\<close>, and the face refs and their states are always assigned together, so each
  pair is one field. \<open>pg_countdownTimer\<close> is the pending \<open>setTimeout\<close> callback of the
  countdown (the argument \<open>tick\<close> will get), \<open>pg_gameLoop\<close> whether a
  \<open>requestAnimationFrame\<close> callback is pending. \<open>pg_channel\<close> and \<open>pg_peer\<close> are the
  \<open>RTCDataChannel\<close> and \<open>RTCPeerConnection\<close> objects (the peer connection is \<open>True\<close> while
  not closed), \<open>pg_dataChannelRef\<close> and \<open>pg_peerConnectionRef\<close> whether the refs point to
  them. \<open>pg_sent\<close> lists what was passed to \<open>send\<close>. \<open>pg_sprites\<close> says whether \<open>initPixi\<close>
  has set \<open>paddle1Ref\<close>, \<open>paddle2Ref\<close> and \<open>ballRef\<close>. Status texts, the invite link, the
  answer code, the webcam dialog and what Pixi draws are not part of the model.
\<close>

record PongGame =
  pg_role :: Role
  pg_gamePhase :: PongPhase
  pg_countdown :: json
  pg_countdownTimer :: "real option"
  pg_gameLoop :: bool
  pg_connected :: bool
  pg_gameState :: "GameState wstate"
  pg_scores :: "jsval \<times> jsval"
  pg_ballSpeed :: real
  pg_keys :: "string set"
  pg_channel :: "readyState option"
  pg_dataChannelRef :: bool
  pg_peer :: "bool option"
  pg_peerConnectionRef :: bool
  pg_hostFaceImage :: jsval
  pg_guestFaceImage :: jsval
  pg_sent :: "json list"
  pg_sprites :: bool

definition initialGameState :: "real \<Rightarrow> GameState" where
  "initialGameState speed =
     \<lparr>ball = \<lparr>ball_x = CANVAS_WIDTH / 2, ball_y = CANVAS_HEIGHT / 2,
              ball_vx = speed, ball_vy = speed / 2\<rparr>,
      paddle1Y = CANVAS_HEIGHT / 2 - PADDLE_HEIGHT / 2,
      paddle2Y = CANVAS_HEIGHT / 2 - PADDLE_HEIGHT / 2,
      score1 = 0, score2 = 0\<rparr>"

definition PongGame_init :: PongGame where
  "PongGame_init =
     \<lparr>pg_role = RoleNone, pg_gamePhase = PIdle, pg_countdown = JNum 3,
      pg_countdownTimer = None, pg_gameLoop = False, pg_connected = False,
      pg_gameState = WS (initialGameState DEFAULT_BALL_SPEED),
      pg_scores = (Some (JNum 0), Some (JNum 0)), pg_ballSpeed = DEFAULT_BALL_SPEED,
      pg_keys = {}, pg_channel = None, pg_dataChannelRef = False, pg_peer = None,
      pg_peerConnectionRef = False, pg_hostFaceImage = None, pg_guestFaceImage = None,
      pg_sent = [], pg_sprites = False\<rparr>"

text \<open>\<open>resetBall(direction)\<close>; \<open>rnd\<close> is the value \<open>Math.random()\<close> returns.\<close>

definition resetBall :: "real \<Rightarrow> real \<Rightarrow> real \<Rightarrow> Ball" where
  "resetBall direction speed rnd =
     \<lparr>ball_x = CANVAS_WIDTH / 2, ball_y = CANVAS_HEIGHT / 2,
      ball_vx = direction * speed,
      ball_vy = (speed / 2) * (if rnd > 0.5 then 1 else - 1)\<rparr>"

definition resetState :: "PongGame \<Rightarrow> PongGame" where
  "resetState s = s\<lparr>pg_gameState := WS (initialGameState (pg_ballSpeed s)),
                     pg_scores := (Some (JNum 0), Some (JNum 0)),
                     pg_countdown := JNum 3\<rparr>"

text \<open>
  \<open>initPixi\<close>, as far as the refs go: it creates the three sprites from the world state
  and stores them, once. With a world state that is not of the \<open>GameState\<close> shape it is
  outside the model.
\<close>

definition PongGame_initPixi :: "PongGame \<Rightarrow> PongGame outcome" where
  "PongGame_initPixi s =
     (if pg_sprites s then (None, s)
      else case pg_gameState s of
             WS g \<Rightarrow> (None, s\<lparr>pg_sprites := True\<rparr>)
           | Raw r \<Rightarrow> (Some Unmodelled, s))"

text \<open>\<open>if (dataChannelRef.current?.readyState === "open") dataChannelRef.current.send(m)\<close>.\<close>

definition pg_send :: "json \<Rightarrow> PongGame \<Rightarrow> PongGame" where
  "pg_send m s =
     (if pg_dataChannelRef s \<and> pg_channel s = Some Open then s\<lparr>pg_sent := pg_sent s @ [m]\<rparr>
      else s)"

definition msg_gameState :: "json \<Rightarrow> json" where
  "msg_gameState state = JObj [(''type'', JStr ''gameState''), (''state'', state)]"

definition msg_input :: "string \<Rightarrow> json" where
  "msg_input direction = JObj [(''type'', JStr ''input''), (''direction'', JStr direction)]"

definition msg_countdown :: "real \<Rightarrow> json" where
  "msg_countdown v = JObj [(''type'', JStr ''phase''), (''phase'', JStr ''countdown''),
                           (''countdown'', JNum v)]"

definition msg_playing :: json where
  "msg_playing = JObj [(''type'', JStr ''phase''), (''phase'', JStr ''playing'')]"

definition msg_settings :: "real \<Rightarrow> json" where
  "msg_settings speed = JObj [(''type'', JStr ''settings''), (''ballSpeed'', JNum speed)]"

definition msg_face :: "string \<Rightarrow> json \<Rightarrow> json" where
  "msg_face ty img = JObj [(''type'', JStr ty), (''data'', img)]"

text \<open>
  \<open>setConnected(b)\<close> with the effect that depends on \<open>connected\<close>: when the value
  changes to true the effect requests the first animation frame, when it changes to false
  the effect's cleanup runs \<open>stopGameLoop\<close>.
\<close>

definition setConnected :: "bool \<Rightarrow> PongGame \<Rightarrow> PongGame" where
  "setConnected b s = (if pg_connected s = b then s else s\<lparr>pg_connected := b, pg_gameLoop := b\<rparr>)"

definition stopGameLoop :: "PongGame \<Rightarrow> PongGame" where
  "stopGameLoop s = s\<lparr>pg_gameLoop := False\<rparr>"

text \<open>
  \<open>setBallSpeed(v)\<close> with the effect that depends on \<open>ballSpeed\<close>: on a change the host
  rescales the ball's velocity (\<open>Math.sign(vx) || 1\<close>, \<open>Math.sign(vy || 1)\<close>) and broadcasts
  the setting.
\<close>

definition sign_or_1 :: "real \<Rightarrow> real" where
  "sign_or_1 v = (if v = 0 then 1 else sgn v)"

definition setBallSpeed :: "real \<Rightarrow> PongGame \<Rightarrow> PongGame outcome" where
  "setBallSpeed v s =
     (if pg_ballSpeed s = v then (None, s)
      else let s1 = s\<lparr>pg_ballSpeed := v\<rparr> in
        if pg_role s1 = Host then
          (case pg_gameState s1 of
             WS g \<Rightarrow>
               (None, pg_send (msg_settings v)
                 (s1\<lparr>pg_gameState :=
                       WS (g\<lparr>ball := (ball g)\<lparr>ball_vx := sign_or_1 (ball_vx (ball g)) * v,
                                               ball_vy := (v / 2) * sign_or_1 (ball_vy (ball g))\<rparr>\<rparr>)\<rparr>))
           | Raw r \<Rightarrow> (Some Unmodelled, s1))
        else (None, s1))"

subsection \<open>\<open>startCountdown\<close> and its timer\<close>

text \<open>
  \<open>tick\<close> is the local function of \<open>startCountdown\<close>; it re-arms itself with
  \<open>setTimeout(() => tick(value - 1), 1000)\<close>. \<open>PongGame_timeout\<close> is the browser running the
  pending callback once.
\<close>

definition PongGame_tick :: "real \<Rightarrow> PongGame \<Rightarrow> PongGame" where
  "PongGame_tick v s =
     (let s1 = s\<lparr>pg_countdown := JNum v\<rparr>;
          s2 = (if pg_role s1 = Host then pg_send (msg_countdown v) s1 else s1)
      in if v \<le> 0 then
           (let s3 = s2\<lparr>pg_gamePhase := PPlaying\<rparr>
            in if pg_role s3 = Host then pg_send msg_playing s3 else s3)
         else s2\<lparr>pg_countdownTimer := Some (v - 1)\<rparr>)"

definition PongGame_startCountdown :: "real \<Rightarrow> PongGame \<Rightarrow> PongGame" where
  "PongGame_startCountdown startFrom s =
     PongGame_tick startFrom
       (s\<lparr>pg_countdownTimer := None, pg_countdown := JNum startFrom, pg_gamePhase := PCountdown\<rparr>)"

definition PongGame_timeout :: "PongGame \<Rightarrow> PongGame" where
  "PongGame_timeout s =
     (case pg_countdownTimer s of
        None \<Rightarrow> s
      | Some v \<Rightarrow> PongGame_tick v (s\<lparr>pg_countdownTimer := None\<rparr>))"

subsection \<open>Session set-up and the channel handlers\<close>

text \<open>The synchronous part of \<open>createGame\<close> and of \<open>handleIncomingOffer\<close>, and \<open>ondatachannel\<close>.\<close>

definition PongGame_createGame :: "PongGame \<Rightarrow> PongGame" where
  "PongGame_createGame s =
     s\<lparr>pg_role := Host, pg_gamePhase := PLobby, pg_peer := Some True,
       pg_peerConnectionRef := True, pg_channel := Some Connecting, pg_dataChannelRef := True\<rparr>"

definition PongGame_handleIncomingOffer :: "PongGame \<Rightarrow> PongGame" where
  "PongGame_handleIncomingOffer s =
     s\<lparr>pg_role := Guest, pg_gamePhase := PLobby, pg_peer := Some True,
       pg_peerConnectionRef := True\<rparr>"

definition PongGame_ondatachannel :: "PongGame \<Rightarrow> PongGame" where
  "PongGame_ondatachannel s = s\<lparr>pg_channel := Some Connecting, pg_dataChannelRef := True\<rparr>"

text \<open>
  \<open>channel.onopen\<close> and \<open>channel.onclose\<close>. The browser calls them when the channel's
  \<open>readyState\<close> has become \<open>open\<close> or \<open>closed\<close>, so the model sets it first. Inside \<open>onopen\<close>
  the source calls \<open>channel.send(m)\<close> on the channel itself, without a test.
\<close>

definition pg_channel_send :: "json \<Rightarrow> PongGame \<Rightarrow> PongGame" where
  "pg_channel_send m s = s\<lparr>pg_sent := pg_sent s @ [m]\<rparr>"

definition PongGame_onopen :: "PongGame \<Rightarrow> PongGame" where
  "PongGame_onopen s0 =
     (let s = setConnected True (s0\<lparr>pg_channel := Some Open\<rparr>);
          s = s\<lparr>pg_gamePhase := PLobby\<rparr>
      in if pg_role s = Host then
           (let s = (case pg_hostFaceImage s of
                       Some img \<Rightarrow> if truthy (Some img) then pg_channel_send (msg_face ''hostFace'' img) s else s
                     | None \<Rightarrow> s);
                s = pg_channel_send (msg_settings (pg_ballSpeed s)) s
            in PongGame_startCountdown 3 s)
         else (case pg_guestFaceImage s of
                 Some img \<Rightarrow> if truthy (Some img) then pg_channel_send (msg_face ''guestFace'' img) s else s
               | None \<Rightarrow> s))"

definition PongGame_onclose :: "PongGame \<Rightarrow> PongGame" where
  "PongGame_onclose s = (setConnected False (s\<lparr>pg_channel := Some Closed\<rparr>))\<lparr>pg_gamePhase := PIdle\<rparr>"

text \<open>
  \<open>channel.onmessage\<close>. The argument is the result of \<open>JSON.parse(event.data)\<close>, \<open>None\<close>
  when it throws. There is no \<open>try\<close> in the handler.
\<close>

definition PongGame_onmessage :: "json option \<Rightarrow> PongGame \<Rightarrow> PongGame outcome" where
  "PongGame_onmessage parsed s =
     (case parsed of
        None \<Rightarrow> (Some SyntaxError, s)
      | Some message \<Rightarrow>
          if message = JNull then (Some TypeError, s) else
          let ty = member message ''type'' in
          if ty = Some (JStr ''gameState'') \<and> pg_role s = Guest then
            (let st = member message ''state'';
                 s1 = s\<lparr>pg_gameState := to_wstate GameState_of_json st\<rparr>
             in case st of
                  None \<Rightarrow> (Some TypeError, s1)
                | Some v \<Rightarrow>
                    if v = JNull then (Some TypeError, s1) else
                    (let sc1 = member v ''score1''; sc2 = member v ''score2''
                     in if strict_neq sc1 (fst (pg_scores s1)) \<or> strict_neq sc2 (snd (pg_scores s1))
                        then (None, s1\<lparr>pg_scores := (sc1, sc2)\<rparr>)
                        else (None, s1)))
          else if ty = Some (JStr ''input'') \<and> pg_role s = Host then
            (case pg_gameState s of
               Raw r \<Rightarrow> (Some (if r = None \<or> r = Some JNull then TypeError else Unmodelled), s)
             | WS g \<Rightarrow>
                 (let paddleY = paddle2Y g; direction = member message ''direction''
                  in if direction = Some (JStr ''up'') then
                       (None, s\<lparr>pg_gameState := WS (g\<lparr>paddle2Y := max 0 (paddleY - PADDLE_SPEED)\<rparr>)\<rparr>)
                     else if direction = Some (JStr ''down'') then
                       (None, s\<lparr>pg_gameState :=
                                  WS (g\<lparr>paddle2Y := min (CANVAS_HEIGHT - PADDLE_HEIGHT)
                                                         (paddleY + PADDLE_SPEED)\<rparr>)\<rparr>)
                     else (None, s)))
          else if ty = Some (JStr ''hostFace'') then
            (None, s\<lparr>pg_hostFaceImage := member message ''data''\<rparr>)
          else if ty = Some (JStr ''guestFace'') then
            (None, s\<lparr>pg_guestFaceImage := member message ''data''\<rparr>)
          else if ty = Some (JStr ''phase'') then
            (let ph = member message ''phase''
             in if ph = Some (JStr ''countdown'') then
                  (None, s\<lparr>pg_gamePhase := PCountdown,
                            pg_countdown := nullish_or (member message ''countdown'') (JNum 3)\<rparr>)
                else if ph = Some (JStr ''playing'') then (None, s\<lparr>pg_gamePhase := PPlaying\<rparr>)
                else (None, s))
          else if ty = Some (JStr ''settings'') then
            (case member message ''ballSpeed'' of
               Some (JNum v) \<Rightarrow> setBallSpeed v s
             | _ \<Rightarrow> (None, s))
          else (None, s))"

subsection \<open>\<open>updateGame\<close>\<close>

text \<open>The stages of the host branch, in the order of the source.\<close>

definition movePaddle1 :: "string set \<Rightarrow> GameState \<Rightarrow> GameState" where
  "movePaddle1 keys state0 =
     (let state1 = (if ''ArrowUp'' \<in> keys \<or> ''w'' \<in> keys
                    then state0\<lparr>paddle1Y := max 0 (paddle1Y state0 - PADDLE_SPEED)\<rparr> else state0)
      in if ''ArrowDown'' \<in> keys \<or> ''s'' \<in> keys
         then state1\<lparr>paddle1Y := min (CANVAS_HEIGHT - PADDLE_HEIGHT) (paddle1Y state1 + PADDLE_SPEED)\<rparr>
         else state1)"

definition moveBall :: "Ball \<Rightarrow> Ball" where
  "moveBall b = b\<lparr>ball_x := ball_x b + ball_vx b, ball_y := ball_y b + ball_vy b\<rparr>"

definition bounceWalls :: "Ball \<Rightarrow> Ball" where
  "bounceWalls b =
     (if ball_y b \<le> BALL_SIZE / 2 \<or> ball_y b \<ge> CANVAS_HEIGHT - BALL_SIZE / 2
      then b\<lparr>ball_vy := ball_vy b * - 1\<rparr> else b)"

definition bouncePaddle1 :: "real \<Rightarrow> Ball \<Rightarrow> Ball" where
  "bouncePaddle1 p1 b =
     (if ball_x b - BALL_SIZE / 2 \<le> 20 + PADDLE_WIDTH \<and> ball_x b - BALL_SIZE / 2 \<ge> 20
         \<and> ball_y b \<ge> p1 \<and> ball_y b \<le> p1 + PADDLE_HEIGHT \<and> ball_vx b < 0
      then b\<lparr>ball_vx := \<bar>ball_vx b\<bar>, ball_x := 20 + PADDLE_WIDTH + BALL_SIZE / 2\<rparr> else b)"

definition bouncePaddle2 :: "real \<Rightarrow> Ball \<Rightarrow> Ball" where
  "bouncePaddle2 p2 b =
     (if ball_x b + BALL_SIZE / 2 \<ge> CANVAS_WIDTH - 20 - PADDLE_WIDTH
         \<and> ball_x b + BALL_SIZE / 2 \<le> CANVAS_WIDTH - 20
         \<and> ball_y b \<ge> p2 \<and> ball_y b \<le> p2 + PADDLE_HEIGHT \<and> ball_vx b > 0
      then b\<lparr>ball_vx := - \<bar>ball_vx b\<bar>, ball_x := CANVAS_WIDTH - 20 - PADDLE_WIDTH - BALL_SIZE / 2\<rparr>
      else b)"

definition scoreLeftExit :: "real \<Rightarrow> real \<Rightarrow> GameState \<Rightarrow> GameState" where
  "scoreLeftExit speed rnd state =
     (if ball_x (ball state) < 0
      then state\<lparr>score2 := score2 state + 1, ball := resetBall 1 speed rnd\<rparr> else state)"

definition scoreRightExit :: "real \<Rightarrow> real \<Rightarrow> GameState \<Rightarrow> GameState" where
  "scoreRightExit speed rnd state =
     (if ball_x (ball state) > CANVAS_WIDTH
      then state\<lparr>score1 := score1 state + 1, ball := resetBall (- 1) speed rnd\<rparr> else state)"

text \<open>The block under \<open>if (gamePhaseRef.current === "playing")\<close>, without the score display.\<close>

definition playingStep :: "real \<Rightarrow> real \<Rightarrow> real \<Rightarrow> GameState \<Rightarrow> GameState" where
  "playingStep speed rnd1 rnd2 state =
     scoreRightExit speed rnd2
       (scoreLeftExit speed rnd1
          (state\<lparr>ball := bouncePaddle2 (paddle2Y state)
                           (bouncePaddle1 (paddle1Y state) (bounceWalls (moveBall (ball state))))\<rparr>))"

definition syncScores :: "GameState \<Rightarrow> jsval \<times> jsval \<Rightarrow> jsval \<times> jsval" where
  "syncScores state scores =
     (if Some (JNum (score1 state)) \<noteq> fst scores \<or> Some (JNum (score2 state)) \<noteq> snd scores
      then (Some (JNum (score1 state)), Some (JNum (score2 state))) else scores)"

text \<open>
  The writes to the sprites at the end of \<open>updateGame\<close>:
  \<^verbatim>\<open>
  if (paddle1Ref.current) paddle1Ref.current.y = state.paddle1Y;
  if (paddle2Ref.current) paddle2Ref.current.y = state.paddle2Y;
  if (ballRef.current) { ballRef.current.x = state.ball.x; ballRef.current.y = state.ball.y; }
  \<close>
  They throw when \<open>state\<close> is \<open>undefined\<close> or \<open>null\<close>, or when \<open>state.ball\<close> is.
\<close>

definition sprite_fault :: "GameState wstate \<Rightarrow> bool" where
  "sprite_fault w =
     (case w of
        WS g \<Rightarrow> False
      | Raw None \<Rightarrow> True
      | Raw (Some v) \<Rightarrow> v = JNull \<or> member v ''ball'' = None \<or> member v ''ball'' = Some JNull)"

text \<open>
  One animation frame. \<open>rnd1\<close> and \<open>rnd2\<close> are what \<open>Math.random()\<close> returns at the two
  \<open>resetBall\<close> call sites. An exception in the sprite writes ends the callback before it
  requests the next frame. A host whose world state is not of the \<open>GameState\<close> shape is
  outside the model.
\<close>

definition PongGame_updateGame :: "real \<Rightarrow> real \<Rightarrow> PongGame \<Rightarrow> PongGame outcome" where
  "PongGame_updateGame rnd1 rnd2 s =
     (case pg_role s of
        Host \<Rightarrow>
          (case pg_gameState s of
             Raw r \<Rightarrow> (Some Unmodelled, s)
           | WS state0 \<Rightarrow>
               (let state1 = movePaddle1 (pg_keys s) state0;
                    state2 = (if pg_gamePhase s = PPlaying
                              then playingStep (pg_ballSpeed s) rnd1 rnd2 state1 else state1);
                    scores = (if pg_gamePhase s = PPlaying
                              then syncScores state2 (pg_scores s) else pg_scores s);
                    s1 = s\<lparr>pg_gameState := WS state2, pg_scores := scores\<rparr>;
                    s2 = pg_send (msg_gameState (json_of_GameState state2)) s1
                in (None, s2\<lparr>pg_gameLoop := True\<rparr>)))
      | Guest \<Rightarrow>
          (let s1 = (if ''ArrowUp'' \<in> pg_keys s \<or> ''w'' \<in> pg_keys s
                     then pg_send (msg_input ''up'') s else s);
               s2 = (if ''ArrowDown'' \<in> pg_keys s \<or> ''s'' \<in> pg_keys s
                     then pg_send (msg_input ''down'') s1 else s1)
           in if pg_sprites s2 \<and> sprite_fault (pg_gameState s2)
              then (Some TypeError, s2\<lparr>pg_gameLoop := False\<rparr>)
              else (None, s2\<lparr>pg_gameLoop := True\<rparr>))
      | RoleNone \<Rightarrow>
          if pg_sprites s \<and> sprite_fault (pg_gameState s)
          then (Some TypeError, s\<lparr>pg_gameLoop := False\<rparr>)
          else (None, s\<lparr>pg_gameLoop := True\<rparr>))"

text \<open>The browser runs the pending animation-frame callback, if there is one.\<close>

definition PongGame_frame :: "real \<Rightarrow> real \<Rightarrow> PongGame \<Rightarrow> PongGame outcome" where
  "PongGame_frame rnd1 rnd2 s = (if pg_gameLoop s then PongGame_updateGame rnd1 rnd2 s else (None, s))"

subsection \<open>\<open>endSession\<close> and the keyboard\<close>

text \<open>\<open>close()\<close> puts the channel into \<open>closing\<close>; the re-initialisation of Pixi is not modelled.\<close>

definition PongGame_endSession :: "PongGame \<Rightarrow> PongGame" where
  "PongGame_endSession s0 =
     (let s = stopGameLoop s0;
          s = setConnected False s;
          s = s\<lparr>pg_role := RoleNone, pg_gamePhase := PIdle\<rparr>;
          s = resetState s;
          s = (if pg_dataChannelRef s then s\<lparr>pg_channel := Some Closing\<rparr> else s);
          s = (if pg_peerConnectionRef s then s\<lparr>pg_peer := Some False\<rparr> else s)
      in s\<lparr>pg_dataChannelRef := False, pg_peerConnectionRef := False\<rparr>)"

definition PongGame_handleKeyDown :: "string \<Rightarrow> PongGame \<Rightarrow> PongGame" where
  "PongGame_handleKeyDown key s0 =
     (let s = (if key \<in> set [''ArrowUp'', ''ArrowDown'', ''w'', ''s'']
               then s0\<lparr>pg_keys := insert key (pg_keys s0)\<rparr> else s0)
      in if key = ''Escape'' then PongGame_endSession s else s)"

definition PongGame_handleKeyUp :: "string \<Rightarrow> PongGame \<Rightarrow> PongGame" where
  "PongGame_handleKeyUp key s = s\<lparr>pg_keys := pg_keys s - {key}\<rparr>"

subsection \<open>Concrete sessions of the paddle game\<close>

text \<open>
  Sessions made of events. The component is mounted and \<open>initPixi\<close> has run; then either
  the user creates a game and the channel opens (the host, in the countdown), or an
  invite link is decoded, the host's channel arrives and opens (the guest, in the lobby).
\<close>

definition pongHostOpened :: PongGame where
  "pongHostOpened = PongGame_onopen (PongGame_createGame (snd (PongGame_initPixi PongGame_init)))"

definition pongGuestOpened :: PongGame where
  "pongGuestOpened =
     PongGame_onopen (PongGame_ondatachannel
       (PongGame_handleIncomingOffer (snd (PongGame_initPixi PongGame_init))))"

text \<open>The host when the countdown has run out.\<close>

definition pongHostPlaying :: PongGame where
  "pongHostPlaying = (PongGame_timeout ^^ 3) pongHostOpened"

text \<open>
  A host in the playing phase with an open channel and no key pressed, and two world
  states: the ball two pixels left of the right edge, moving right; the ball one pixel
  below the top edge, moving up.
\<close>

definition playingPongHost :: "GameState \<Rightarrow> PongGame" where
  "playingPongHost g =
     PongGame_init\<lparr>pg_role := Host, pg_gamePhase := PPlaying, pg_countdown := JNum 0,
                   pg_gameLoop := True, pg_connected := True, pg_gameState := WS g,
                   pg_channel := Some Open, pg_dataChannelRef := True,
                   pg_peer := Some True, pg_peerConnectionRef := True\<rparr>"

definition rightEdgeState :: GameState where
  "rightEdgeState =
     (initialGameState DEFAULT_BALL_SPEED)
       \<lparr>ball := \<lparr>ball_x = 798, ball_y = 280, ball_vx = 5, ball_vy = 5 / 2\<rparr>\<rparr>"

definition topEdgeState :: GameState where
  "topEdgeState =
     (initialGameState DEFAULT_BALL_SPEED)
       \<lparr>ball := \<lparr>ball_x = 400, ball_y = 1, ball_vx = 5, ball_vy = - (5 / 2)\<rparr>\<rparr>"

section \<open>The chase game: component \<open>MultiSnake\<close>\<close>

abbreviation COLS :: real where "COLS \<equiv> 24"
abbreviation ROWS :: real where "ROWS \<equiv> 16"
abbreviation INITIAL_INTERVAL :: real where "INITIAL_INTERVAL \<equiv> 150"

datatype Direction = Up | Down | Left | Right

datatype GamePhase = Idle | Lobby | Countdown | Playing | Over

text \<open>\<^verbatim>\<open>type Cell = { x: number; y: number }\<close>, with the fields \<open>cell_x\<close> and \<open>cell_y\<close>.\<close>

record Cell =
  cell_x :: real
  cell_y :: real

text \<open>
  \<open>MultiSnake\<close>'s \<open>GameState\<close>; its scores are \<open>ms_score1\<close> and \<open>ms_score2\<close>. At run time a
  direction is a string, and the host stores the \<open>direction\<close> of an inbound message as
  it comes, so the direction fields and refs hold parsed values.
\<close>

record SnakeState =
  snake1 :: "Cell list"
  snake2 :: "Cell list"
  dir1 :: json
  dir2 :: json
  food :: Cell
  ms_score1 :: real
  ms_score2 :: real
  phase :: GamePhase

fun opposite :: "Direction \<Rightarrow> Direction" where
  "opposite Up = Down"
| "opposite Down = Up"
| "opposite Left = Right"
| "opposite Right = Left"

fun delta :: "Direction \<Rightarrow> Cell" where
  "delta Up = \<lparr>cell_x = 0, cell_y = - 1\<rparr>"
| "delta Down = \<lparr>cell_x = 0, cell_y = 1\<rparr>"
| "delta Left = \<lparr>cell_x = - 1, cell_y = 0\<rparr>"
| "delta Right = \<lparr>cell_x = 1, cell_y = 0\<rparr>"

fun json_of_Direction :: "Direction \<Rightarrow> json" where
  "json_of_Direction Up = JStr ''up''"
| "json_of_Direction Down = JStr ''down''"
| "json_of_Direction Left = JStr ''left''"
| "json_of_Direction Right = JStr ''right''"

text \<open>
  Which key of the tables \<open>opposite\<close> and \<open>delta\<close> a value selects in \<open>table[v]\<close>: the value
  is converted to a string, and an array of one element converts as its element.
\<close>

fun as_Direction :: "json \<Rightarrow> Direction option" where
  "as_Direction (JStr s) =
     (if s = ''up'' then Some Up else if s = ''down'' then Some Down
      else if s = ''left'' then Some Left else if s = ''right'' then Some Right else None)"
| "as_Direction (JArr [v]) = as_Direction v"
| "as_Direction _ = None"

text \<open>
  The tables are plain objects, so \<open>table[v]\<close> is not \<open>undefined\<close> either when \<open>v\<close> names a
  property that every object inherits.
\<close>

definition inherited_names :: "string list" where
  "inherited_names = [''constructor'', ''hasOwnProperty'', ''isPrototypeOf'',
     ''propertyIsEnumerable'', ''toLocaleString'', ''toString'', ''valueOf'', ''__proto__'',
     ''__defineGetter__'', ''__defineSetter__'', ''__lookupGetter__'', ''__lookupSetter__'']"

fun inherited_key :: "json \<Rightarrow> bool" where
  "inherited_key (JStr s) = (s \<in> set inherited_names)"
| "inherited_key (JArr [v]) = inherited_key v"
| "inherited_key _ = False"

text \<open>
  \<open>opposite[v]\<close> as far as \<open>!==\<close> against a parsed value can tell: a direction string, or
  something no parsed value is identical to (\<open>undefined\<close>, or an inherited function).
\<close>

definition opposite_of :: "json \<Rightarrow> jsval" where
  "opposite_of v = map_option (\<lambda>d. json_of_Direction (opposite d)) (as_Direction v)"

fun json_of_GamePhase :: "GamePhase \<Rightarrow> json" where
  "json_of_GamePhase Idle = JStr ''idle''"
| "json_of_GamePhase Lobby = JStr ''lobby''"
| "json_of_GamePhase Countdown = JStr ''countdown''"
| "json_of_GamePhase Playing = JStr ''playing''"
| "json_of_GamePhase Over = JStr ''over''"

definition GamePhase_of_json :: "json \<Rightarrow> GamePhase option" where
  "GamePhase_of_json j = List.find (\<lambda>p. json_of_GamePhase p = j) [Idle, Lobby, Countdown, Playing, Over]"

definition json_of_Cell :: "Cell \<Rightarrow> json" where
  "json_of_Cell c = JObj [(''x'', JNum (cell_x c)), (''y'', JNum (cell_y c))]"

definition Cell_of_json :: "json \<Rightarrow> Cell option" where
  "Cell_of_json j =
     Option.bind (num_member j ''x'') (\<lambda>x.
     Option.bind (num_member j ''y'') (\<lambda>y.
       let c = \<lparr>cell_x = x, cell_y = y\<rparr> in if json_of_Cell c = j then Some c else None))"

definition cells_member :: "json \<Rightarrow> string \<Rightarrow> Cell list option" where
  "cells_member j k =
     (case member j k of Some (JArr xs) \<Rightarrow> all_some (map Cell_of_json xs) | _ \<Rightarrow> None)"

definition json_of_SnakeState :: "SnakeState \<Rightarrow> json" where
  "json_of_SnakeState g = JObj [
     (''snake1'', JArr (map json_of_Cell (snake1 g))),
     (''snake2'', JArr (map json_of_Cell (snake2 g))),
     (''dir1'', dir1 g), (''dir2'', dir2 g),
     (''food'', json_of_Cell (food g)),
     (''score1'', JNum (ms_score1 g)), (''score2'', JNum (ms_score2 g)),
     (''phase'', json_of_GamePhase (phase g))]"

definition SnakeState_of_json :: "json \<Rightarrow> SnakeState option" where
  "SnakeState_of_json j =
     Option.bind (cells_member j ''snake1'') (\<lambda>a.
     Option.bind (cells_member j ''snake2'') (\<lambda>b.
     Option.bind (member j ''dir1'') (\<lambda>d1.
     Option.bind (member j ''dir2'') (\<lambda>d2.
     Option.bind (Option.bind (member j ''food'') Cell_of_json) (\<lambda>f.
     Option.bind (num_member j ''score1'') (\<lambda>s1.
     Option.bind (num_member j ''score2'') (\<lambda>s2.
     Option.bind (Option.bind (member j ''phase'') GamePhase_of_json) (\<lambda>p.
       let g = \<lparr>snake1 = a, snake2 = b, dir1 = d1, dir2 = d2, food = f,
                ms_score1 = s1, ms_score2 = s2, phase = p\<rparr>
       in if json_of_SnakeState g = j then Some g else None))))))))"

text \<open>
  The session. \<open>ms_gamePhase\<close> is the React state and \<open>ms_gamePhaseRef\<close> the ref: unlike in
  the paddle game, \<open>stepGame\<close> writes the ref alone. \<open>ms_interval\<close> is the running
  \<open>setInterval\<close> of \<open>stepGame\<close> (its period), \<open>ms_countdownTimer\<close> the pending countdown
  callback, \<open>ms_scores\<close> the \<open>scores\<close> state. Channel, peer connection and sent messages
  are as in the paddle game. \<open>ms_pixi\<close> says whether \<open>initPixi\<close> has set \<open>appRef\<close> and the
  three \<open>Graphics\<close> refs. What \<open>drawState\<close> draws and the status texts are not modelled.
\<close>

record MultiSnake =
  ms_role :: Role
  ms_gamePhase :: GamePhase
  ms_gamePhaseRef :: GamePhase
  ms_countdown :: json
  ms_countdownTimer :: "real option"
  ms_interval :: "real option"
  ms_speed :: real
  ms_dir1Ref :: json
  ms_dir2Ref :: json
  ms_gameState :: "SnakeState wstate"
  ms_scores :: "jsval \<times> jsval"
  ms_connected :: bool
  ms_channel :: "readyState option"
  ms_channelRef :: bool
  ms_peer :: "bool option"
  ms_peerRef :: bool
  ms_sent :: "json list"
  ms_pixi :: bool

definition startSnake1 :: "Cell list" where
  "startSnake1 = [\<lparr>cell_x = 4, cell_y = 8\<rparr>, \<lparr>cell_x = 3, cell_y = 8\<rparr>, \<lparr>cell_x = 2, cell_y = 8\<rparr>]"

definition startSnake2 :: "Cell list" where
  "startSnake2 = [\<lparr>cell_x = COLS - 5, cell_y = 8\<rparr>, \<lparr>cell_x = COLS - 4, cell_y = 8\<rparr>,
                  \<lparr>cell_x = COLS - 3, cell_y = 8\<rparr>]"

definition MultiSnake_init :: MultiSnake where
  "MultiSnake_init =
     \<lparr>ms_role = RoleNone, ms_gamePhase = Idle, ms_gamePhaseRef = Idle, ms_countdown = JNum 3,
      ms_countdownTimer = None, ms_interval = None, ms_speed = INITIAL_INTERVAL,
      ms_dir1Ref = JStr ''right'', ms_dir2Ref = JStr ''left'',
      ms_gameState = WS \<lparr>snake1 = startSnake1, snake2 = startSnake2,
                         dir1 = JStr ''right'', dir2 = JStr ''left'',
                         food = \<lparr>cell_x = 12, cell_y = 6\<rparr>,
                         ms_score1 = 0, ms_score2 = 0, phase = Idle\<rparr>,
      ms_scores = (Some (JNum 0), Some (JNum 0)), ms_connected = False,
      ms_channel = None, ms_channelRef = False, ms_peer = None, ms_peerRef = False,
      ms_sent = [], ms_pixi = False\<rparr>"

text \<open>
  \<open>placeFood\<close>. Each element of \<open>draws\<close> is the pair of values that two successive calls
  of \<open>Math.random()\<close> return; the loop redraws while the cell is occupied, and \<open>None\<close> says
  that it has not returned when the draws are used up. The source compares the keys
  \<^verbatim>\<open>`${x}-${y}`\<close>, the model the cells.
\<close>

definition randomCell :: "real \<times> real \<Rightarrow> Cell" where
  "randomCell d = \<lparr>cell_x = of_int \<lfloor>fst d * COLS\<rfloor>, cell_y = of_int \<lfloor>snd d * ROWS\<rfloor>\<rparr>"

fun placeFood :: "Cell list \<Rightarrow> Cell list \<Rightarrow> (real \<times> real) list \<Rightarrow> Cell option" where
  "placeFood snakeA snakeB [] = None"
| "placeFood snakeA snakeB (d # ds) =
     (if randomCell d \<in> set (snakeA @ snakeB) then placeFood snakeA snakeB ds
      else Some (randomCell d))"

definition stopInterval :: "MultiSnake \<Rightarrow> MultiSnake" where
  "stopInterval s = s\<lparr>ms_interval := None\<rparr>"

definition ms_send :: "json \<Rightarrow> MultiSnake \<Rightarrow> MultiSnake" where
  "ms_send m s =
     (if ms_channelRef s \<and> ms_channel s = Some Open then s\<lparr>ms_sent := ms_sent s @ [m]\<rparr>
      else s)"

definition resetGameState :: "(real \<times> real) list \<Rightarrow> MultiSnake \<Rightarrow> MultiSnake outcome" where
  "resetGameState draws s =
     (case placeFood startSnake1 startSnake2 draws of
        None \<Rightarrow> (Some NoReturn, s)
      | Some f \<Rightarrow>
          (None, s\<lparr>ms_gameState := WS \<lparr>snake1 = startSnake1, snake2 = startSnake2,
                                       dir1 = JStr ''right'', dir2 = JStr ''left'', food = f,
                                       ms_score1 = 0, ms_score2 = 0, phase = Lobby\<rparr>,
                    ms_dir1Ref := JStr ''right'', ms_dir2Ref := JStr ''left'',
                    ms_scores := (Some (JNum 0), Some (JNum 0)),
                    ms_speed := INITIAL_INTERVAL,
                    ms_gamePhase := Lobby, ms_gamePhaseRef := Lobby\<rparr>))"

definition updateScores :: "SnakeState \<Rightarrow> MultiSnake \<Rightarrow> MultiSnake" where
  "updateScores state s = s\<lparr>ms_scores := (Some (JNum (ms_score1 state)), Some (JNum (ms_score2 state)))\<rparr>"

text \<open>
  Whether \<open>drawState(v)\<close> throws once Pixi is there, for a \<open>v\<close> that is neither \<open>undefined\<close> nor
  \<open>null\<close>: \<open>v.snake1.forEach\<close> and \<open>v.snake2.forEach\<close> must be there to be called, their
  callback reads \<open>cell.x\<close> of every element, and \<open>v.food.x\<close> is read. The drawing calls
  themselves are taken not to throw.
\<close>

definition cells_throw :: "jsval \<Rightarrow> bool" where
  "cells_throw x = (case x of Some (JArr cells) \<Rightarrow> JNull \<in> set cells | _ \<Rightarrow> True)"

definition draw_throws :: "json \<Rightarrow> bool" where
  "draw_throws v \<longleftrightarrow>
     cells_throw (member v ''snake1'') \<or> cells_throw (member v ''snake2'')
     \<or> member v ''food'' = None \<or> member v ''food'' = Some JNull"

text \<open>
  \<open>initPixi\<close>, as far as the refs go; it ends with \<open>drawState(gameStateRef.current)\<close>.
\<close>

definition MultiSnake_initPixi :: "MultiSnake \<Rightarrow> MultiSnake outcome" where
  "MultiSnake_initPixi s =
     (if ms_pixi s then (None, s)
      else case ms_gameState s of
             WS g \<Rightarrow> (None, s\<lparr>ms_pixi := True\<rparr>)
           | Raw None \<Rightarrow> (Some TypeError, s\<lparr>ms_pixi := True\<rparr>)
           | Raw (Some v) \<Rightarrow>
               (if v = JNull \<or> draw_throws v then Some TypeError else None, s\<lparr>ms_pixi := True\<rparr>))"

text \<open>
  \<open>applyStateFromHost(message.state)\<close>: the assignment, then \<open>updateScores\<close>, which reads
  \<open>state.score1\<close>, then \<open>drawState\<close>.
\<close>

definition applyStateFromHost :: "jsval \<Rightarrow> MultiSnake \<Rightarrow> MultiSnake outcome" where
  "applyStateFromHost st s =
     (let s1 = s\<lparr>ms_gameState := to_wstate SnakeState_of_json st\<rparr>
      in case st of
           None \<Rightarrow> (Some TypeError, s1)
         | Some v \<Rightarrow>
             if v = JNull then (Some TypeError, s1)
             else (let s2 = s1\<lparr>ms_scores := (member v ''score1'', member v ''score2'')\<rparr>
                   in if ms_pixi s2 \<and> draw_throws v then (Some TypeError, s2) else (None, s2)))"

subsection \<open>\<open>stepGame\<close>\<close>

text \<open>\<open>advance\<close>, the local function of \<open>stepGame\<close>; \<open>None\<close> is the \<open>TypeError\<close> of \<open>snake[0].x\<close> on an empty snake.\<close>

definition advance :: "Cell list \<Rightarrow> Direction \<Rightarrow> (Cell \<times> bool) option" where
  "advance snake dir =
     (case snake of
        [] \<Rightarrow> None
      | head # _ \<Rightarrow>
          (let next = \<lparr>cell_x = cell_x head + cell_x (delta dir),
                       cell_y = cell_y head + cell_y (delta dir)\<rparr>;
               hitsWall = (cell_x next < 0 \<or> cell_x next \<ge> COLS \<or> cell_y next < 0 \<or> cell_y next \<ge> ROWS)
           in Some (next, hitsWall)))"

text \<open>The cells of the grid: those for which \<open>hitsWall\<close> is false.\<close>

definition inField :: "Cell \<Rightarrow> bool" where
  "inField c \<longleftrightarrow> 0 \<le> cell_x c \<and> cell_x c < COLS \<and> 0 \<le> cell_y c \<and> cell_y c < ROWS"

text \<open>
  Whether \<open>advance(snake, dir)\<close> throws for a direction ref as it is stored: \<open>snake[0]\<close> or
  \<open>delta[dir]\<close> is \<open>undefined\<close>.
\<close>

definition advance_throws :: "Cell list \<Rightarrow> json \<Rightarrow> bool" where
  "advance_throws snake dir \<longleftrightarrow>
     snake = [] \<or> (as_Direction dir = None \<and> \<not> inherited_key dir)"

text \<open>\<open>snake.some((c) => c.x === next.x && c.y === next.y)\<close>.\<close>

definition hits :: "Cell list \<Rightarrow> Cell \<Rightarrow> bool" where
  "hits snake next = list_ex (\<lambda>c. cell_x c = cell_x next \<and> cell_y c = cell_y next) snake"

definition anyCrash :: "SnakeState \<Rightarrow> Cell \<Rightarrow> bool \<Rightarrow> Cell \<Rightarrow> bool \<Rightarrow> bool" where
  "anyCrash state next1 wall1 next2 wall2 =
     (let snake1HitsSelf = hits (snake1 state) next1;
          snake2HitsSelf = hits (snake2 state) next2;
          headCollision = (cell_x next1 = cell_x next2 \<and> cell_y next1 = cell_y next2);
          snake1HitsOther = hits (snake2 state) next1;
          snake2HitsOther = hits (snake1 state) next2
      in wall1 \<or> wall2 \<or> snake1HitsSelf \<or> snake2HitsSelf \<or> headCollision
         \<or> snake1HitsOther \<or> snake2HitsOther)"

text \<open>
  The part of \<open>stepGame\<close> after the crash test: growing, eating, scoring. The flag says
  whether \<open>ate1 || ate2\<close> held, that is, whether \<open>updateScores\<close> is called.
\<close>

definition commitMove ::
  "(real \<times> real) list \<Rightarrow> SnakeState \<Rightarrow> Cell \<Rightarrow> Cell \<Rightarrow> (SnakeState \<times> bool) option" where
  "commitMove draws state next1 next2 =
     (let ate1 = (cell_x next1 = cell_x (food state) \<and> cell_y next1 = cell_y (food state));
          ate2 = (cell_x next2 = cell_x (food state) \<and> cell_y next2 = cell_y (food state));
          nextSnake1 = (if \<not> ate1 then butlast (next1 # snake1 state) else next1 # snake1 state);
          nextSnake2 = (if \<not> ate2 then butlast (next2 # snake2 state) else next2 # snake2 state)
      in if ate1 \<or> ate2 then
           (case placeFood nextSnake1 nextSnake2 draws of
              None \<Rightarrow> None
            | Some f \<Rightarrow>
                Some (state\<lparr>food := f,
                            ms_score1 := (if ate1 then ms_score1 state + 1 else ms_score1 state),
                            ms_score2 := (if ate2 then ms_score2 state + 1 else ms_score2 state),
                            snake1 := nextSnake1, snake2 := nextSnake2\<rparr>, True))
         else Some (state\<lparr>snake1 := nextSnake1, snake2 := nextSnake2\<rparr>, False))"

text \<open>
  One call of \<open>stepGame\<close>. \<open>advance\<close> throws on an empty snake and on a direction ref for
  which \<open>delta[dir]\<close> is \<open>undefined\<close>. For a ref that names an inherited property (such as
  \<^verbatim>\<open>"constructor"\<close>) \<open>delta[dir].x\<close> is \<open>undefined\<close>, and the source goes on with a head whose
  coordinates are \<open>NaN\<close>; the cells here are reals and cannot hold it, so that case is the
  fault \<open>Unmodelled\<close>, and the state beside the fault says nothing about the source.
\<close>

definition MultiSnake_stepGame :: "(real \<times> real) list \<Rightarrow> MultiSnake \<Rightarrow> MultiSnake outcome" where
  "MultiSnake_stepGame draws s =
     (if ms_gamePhaseRef s \<noteq> Playing then (None, s)
      else case ms_gameState s of
        Raw r \<Rightarrow> (Some (if r = None \<or> r = Some JNull then TypeError else Unmodelled), s)
      | WS state0 \<Rightarrow>
          (let state = state0\<lparr>dir1 := ms_dir1Ref s, dir2 := ms_dir2Ref s\<rparr>;
               sA = s\<lparr>ms_gameState := WS state\<rparr>
           in case (as_Direction (ms_dir1Ref s), as_Direction (ms_dir2Ref s)) of
                (Some d1, Some d2) \<Rightarrow>
                  (case (advance (snake1 state) d1, advance (snake2 state) d2) of
                     (Some (next1, wall1), Some (next2, wall2)) \<Rightarrow>
                       if anyCrash state next1 wall1 next2 wall2 then
                         (let stateOver = state\<lparr>phase := Over\<rparr>
                          in (None, ms_send (msg_gameState (json_of_SnakeState stateOver))
                                      (stopInterval (sA\<lparr>ms_gameState := WS stateOver,
                                                         ms_gamePhaseRef := Over\<rparr>))))
                       else
                         (case commitMove draws state next1 next2 of
                            None \<Rightarrow> (Some NoReturn, sA)
                          | Some (state', ate) \<Rightarrow>
                              (let sB = sA\<lparr>ms_gameState := WS state'\<rparr>;
                                   sC = (if ate then updateScores state' sB else sB)
                               in (None, ms_send (msg_gameState (json_of_SnakeState state')) sC)))
                   | _ \<Rightarrow> (Some TypeError, sA))
              | _ \<Rightarrow>
                  (Some (if advance_throws (snake1 state) (ms_dir1Ref s)
                            \<or> advance_throws (snake2 state) (ms_dir2Ref s)
                         then TypeError else Unmodelled), sA)))"

text \<open>The browser runs the interval callback, if the interval is set.\<close>

definition MultiSnake_interval :: "(real \<times> real) list \<Rightarrow> MultiSnake \<Rightarrow> MultiSnake outcome" where
  "MultiSnake_interval draws s =
     (case ms_interval s of None \<Rightarrow> (None, s) | Some period \<Rightarrow> MultiSnake_stepGame draws s)"

subsection \<open>\<open>startCountdown\<close> and its timer\<close>

definition MultiSnake_tick :: "real \<Rightarrow> MultiSnake \<Rightarrow> MultiSnake" where
  "MultiSnake_tick v s =
     (let s1 = s\<lparr>ms_countdown := JNum v\<rparr>;
          s2 = (if ms_role s1 = Host then ms_send (msg_countdown v) s1 else s1)
      in if v \<le> 0 then
           (let s3 = s2\<lparr>ms_gamePhase := Playing, ms_gamePhaseRef := Playing\<rparr>;
                s4 = (if ms_role s3 = Host
                      then (stopInterval s3)\<lparr>ms_interval := Some (ms_speed s3)\<rparr> else s3)
            in if ms_role s4 = Host then ms_send msg_playing s4 else s4)
         else s2\<lparr>ms_countdownTimer := Some (v - 1)\<rparr>)"

definition MultiSnake_startCountdown :: "real \<Rightarrow> MultiSnake \<Rightarrow> MultiSnake" where
  "MultiSnake_startCountdown startFrom s =
     MultiSnake_tick startFrom
       (s\<lparr>ms_countdownTimer := None, ms_countdown := JNum startFrom,
          ms_gamePhase := Countdown, ms_gamePhaseRef := Countdown\<rparr>)"

definition MultiSnake_timeout :: "MultiSnake \<Rightarrow> MultiSnake" where
  "MultiSnake_timeout s =
     (case ms_countdownTimer s of
        None \<Rightarrow> s
      | Some v \<Rightarrow> MultiSnake_tick v (s\<lparr>ms_countdownTimer := None\<rparr>))"

subsection \<open>Session set-up, the channel handlers, \<open>endSession\<close> and the keyboard\<close>

definition MultiSnake_createGame :: "(real \<times> real) list \<Rightarrow> MultiSnake \<Rightarrow> MultiSnake outcome" where
  "MultiSnake_createGame draws s =
     (case resetGameState draws (s\<lparr>ms_role := Host\<rparr>) of
        (Some e, s1) \<Rightarrow> (Some e, s1)
      | (None, s1) \<Rightarrow>
          (None, s1\<lparr>ms_peer := Some True, ms_peerRef := True,
                    ms_channel := Some Connecting, ms_channelRef := True\<rparr>))"

definition MultiSnake_handleIncomingOffer :: "MultiSnake \<Rightarrow> MultiSnake" where
  "MultiSnake_handleIncomingOffer s = s\<lparr>ms_role := Guest, ms_peer := Some True, ms_peerRef := True\<rparr>"

definition MultiSnake_ondatachannel :: "MultiSnake \<Rightarrow> MultiSnake" where
  "MultiSnake_ondatachannel s = s\<lparr>ms_channel := Some Connecting, ms_channelRef := True\<rparr>"

definition MultiSnake_onopen :: "(real \<times> real) list \<Rightarrow> MultiSnake \<Rightarrow> MultiSnake outcome" where
  "MultiSnake_onopen draws s0 =
     (let s = s0\<lparr>ms_channel := Some Open, ms_connected := True,
                 ms_gamePhase := Lobby, ms_gamePhaseRef := Lobby\<rparr>
      in if ms_role s = Host then
           (case resetGameState draws s of
              (Some e, s1) \<Rightarrow> (Some e, s1)
            | (None, s1) \<Rightarrow> (None, MultiSnake_startCountdown 3 s1))
         else (None, s))"

definition MultiSnake_onclose :: "MultiSnake \<Rightarrow> MultiSnake" where
  "MultiSnake_onclose s = stopInterval (s\<lparr>ms_channel := Some Closed, ms_connected := False\<rparr>)"

definition MultiSnake_onmessage :: "json option \<Rightarrow> MultiSnake \<Rightarrow> MultiSnake outcome" where
  "MultiSnake_onmessage parsed s =
     (case parsed of
        None \<Rightarrow> (Some SyntaxError, s)
      | Some message \<Rightarrow>
          if message = JNull then (Some TypeError, s) else
          let ty = member message ''type'' in
          if ty = Some (JStr ''gameState'') \<and> ms_role s = Guest then
            applyStateFromHost (member message ''state'') s
          else if ty = Some (JStr ''input'') \<and> ms_role s = Host then
            (case member message ''direction'' of
               None \<Rightarrow> (None, s)
             | Some next \<Rightarrow>
                 if truthy (Some next) \<and> strict_neq (Some next) (opposite_of (ms_dir2Ref s))
                 then (None, s\<lparr>ms_dir2Ref := next\<rparr>) else (None, s))
          else if ty = Some (JStr ''phase'') then
            (let ph = member message ''phase''
             in if ph = Some (JStr ''countdown'') then
                  (None, s\<lparr>ms_gamePhase := Countdown, ms_gamePhaseRef := Countdown,
                            ms_countdown := nullish_or (member message ''countdown'') (JNum 3)\<rparr>)
                else if ph = Some (JStr ''playing'') then
                  (None, s\<lparr>ms_gamePhase := Playing, ms_gamePhaseRef := Playing\<rparr>)
                else (None, s))
          else (None, s))"

text \<open>
  \<open>endSession\<close>; its last write is \<open>gameStateRef.current.phase = "idle"\<close>, which throws when
  the ref holds \<open>undefined\<close> or \<open>null\<close>.
\<close>

definition MultiSnake_endSession :: "MultiSnake \<Rightarrow> MultiSnake outcome" where
  "MultiSnake_endSession s0 =
     (let s = stopInterval s0;
          s = (if ms_channelRef s then s\<lparr>ms_channel := Some Closing\<rparr> else s);
          s = (if ms_peerRef s then s\<lparr>ms_peer := Some False\<rparr> else s);
          s = s\<lparr>ms_channelRef := False, ms_peerRef := False, ms_connected := False,
                ms_role := RoleNone, ms_gamePhase := Idle, ms_gamePhaseRef := Idle\<rparr>
      in case ms_gameState s of
           WS g \<Rightarrow> (None, s\<lparr>ms_gameState := WS (g\<lparr>phase := Idle\<rparr>)\<rparr>)
         | Raw r \<Rightarrow> (Some (if r = None \<or> r = Some JNull then TypeError else Unmodelled), s))"

text \<open>The two key tables of \<open>handleKeyDown\<close>.\<close>

definition arrowKey :: "string \<Rightarrow> Direction option" where
  "arrowKey = map_of [(''ArrowUp'', Up), (''ArrowDown'', Down), (''ArrowLeft'', Left),
                      (''ArrowRight'', Right)]"

definition letterKey :: "string \<Rightarrow> Direction option" where
  "letterKey = map_of [(''w'', Up), (''s'', Down), (''a'', Left), (''d'', Right),
                       (''W'', Up), (''S'', Down), (''A'', Left), (''D'', Right)]"

text \<open>\<open>channelRef.current?.send(m)\<close>: no test of \<open>readyState\<close>.\<close>

definition ms_channel_send :: "json \<Rightarrow> MultiSnake \<Rightarrow> MultiSnake outcome" where
  "ms_channel_send m s =
     (if \<not> ms_channelRef s then (None, s)
      else if ms_channel s = Some Open then (None, s\<lparr>ms_sent := ms_sent s @ [m]\<rparr>)
      else (Some InvalidStateError, s))"

definition MultiSnake_handleKeyDown :: "string \<Rightarrow> MultiSnake \<Rightarrow> MultiSnake outcome" where
  "MultiSnake_handleKeyDown key s =
     (if key = ''Escape'' then MultiSnake_endSession s
      else if ms_role s = Host then
        (case arrowKey key of
           None \<Rightarrow> (None, s)
         | Some next \<Rightarrow>
             if strict_neq (Some (json_of_Direction next)) (opposite_of (ms_dir1Ref s))
             then (None, s\<lparr>ms_dir1Ref := json_of_Direction next\<rparr>) else (None, s))
      else if ms_role s = Guest then
        (case letterKey key of
           None \<Rightarrow> (None, s)
         | Some next \<Rightarrow>
             if strict_neq (Some (json_of_Direction next)) (opposite_of (ms_dir2Ref s))
             then ms_channel_send (JObj [(''type'', JStr ''input''),
                                         (''direction'', json_of_Direction next)]) s
             else (None, s))
      else (None, s))"

text \<open>The click handler of the restart button.\<close>

definition MultiSnake_restart :: "(real \<times> real) list \<Rightarrow> MultiSnake \<Rightarrow> MultiSnake outcome" where
  "MultiSnake_restart draws s =
     (case resetGameState draws s of
        (Some e, s1) \<Rightarrow> (Some e, s1)
      | (None, s1) \<Rightarrow>
          (None, if ms_role s1 = Host then MultiSnake_startCountdown 3 s1 else s1))"

section \<open>Sequences of inbound messages\<close>

text \<open>
  The channel delivers its messages in order, one \<open>onmessage\<close> call each. An exception
  ends the call that raised it and nothing else, so the next message meets the state the
  previous call left behind.
\<close>

definition PongGame_receive :: "json option list \<Rightarrow> PongGame \<Rightarrow> PongGame" where
  "PongGame_receive ms s = foldl (\<lambda>s m. snd (PongGame_onmessage m s)) s ms"

definition MultiSnake_receive :: "json option list \<Rightarrow> MultiSnake \<Rightarrow> MultiSnake" where
  "MultiSnake_receive ms s = foldl (\<lambda>s m. snd (MultiSnake_onmessage m s)) s ms"

section \<open>Concrete sessions of the chase game\<close>

text \<open>
  Sessions made of events, as in the paddle game: the host right after its channel has
  opened (in the countdown; \<open>placeFood\<close> draws the cell (12, 4)), the host when the
  countdown has run out, and a guest whose channel has opened.
\<close>

definition snakeHostOpened :: MultiSnake where
  "snakeHostOpened =
     snd (MultiSnake_onopen [(1 / 2, 1 / 4)]
       (snd (MultiSnake_createGame [(1 / 2, 1 / 4)] (snd (MultiSnake_initPixi MultiSnake_init)))))"

definition snakeHostPlaying :: MultiSnake where
  "snakeHostPlaying = (MultiSnake_timeout ^^ 3) snakeHostOpened"

definition snakeGuestOpened :: MultiSnake where
  "snakeGuestOpened =
     snd (MultiSnake_onopen []
       (MultiSnake_ondatachannel
         (MultiSnake_handleIncomingOffer (snd (MultiSnake_initPixi MultiSnake_init)))))"

text \<open>The guest when it has received what the host sends during its countdown.\<close>

definition snakeGuestPlaying :: MultiSnake where
  "snakeGuestPlaying =
     MultiSnake_receive [Some (msg_countdown 3), Some (msg_countdown 2), Some (msg_countdown 1),
                         Some (msg_countdown 0), Some msg_playing] snakeGuestOpened"

text \<open>
  A host in the playing phase with an open channel: \<open>headOnState\<close> has two bodies of
  three cells on row 8, heads at columns 10 and 12, moving toward each other;
  \<open>openingState\<close> has the bodies where \<open>resetGameState\<close> puts them, and \<open>feedingState\<close>
  has the food right in front of snake 1.
\<close>

definition playingHost :: "SnakeState \<Rightarrow> MultiSnake" where
  "playingHost g =
     MultiSnake_init\<lparr>ms_role := Host, ms_gamePhase := Playing, ms_gamePhaseRef := Playing,
                     ms_countdown := JNum 0, ms_interval := Some INITIAL_INTERVAL,
                     ms_gameState := WS g, ms_connected := True,
                     ms_channel := Some Open, ms_channelRef := True,
                     ms_peer := Some True, ms_peerRef := True\<rparr>"

definition headOnState :: SnakeState where
  "headOnState =
     \<lparr>snake1 = [\<lparr>cell_x = 10, cell_y = 8\<rparr>, \<lparr>cell_x = 9, cell_y = 8\<rparr>, \<lparr>cell_x = 8, cell_y = 8\<rparr>],
      snake2 = [\<lparr>cell_x = 12, cell_y = 8\<rparr>, \<lparr>cell_x = 13, cell_y = 8\<rparr>, \<lparr>cell_x = 14, cell_y = 8\<rparr>],
      dir1 = JStr ''right'', dir2 = JStr ''left'', food = \<lparr>cell_x = 12, cell_y = 6\<rparr>,
      ms_score1 = 0, ms_score2 = 0, phase = Lobby\<rparr>"

definition openingState :: SnakeState where
  "openingState =
     \<lparr>snake1 = startSnake1, snake2 = startSnake2,
      dir1 = JStr ''right'', dir2 = JStr ''left'', food = \<lparr>cell_x = 12, cell_y = 6\<rparr>,
      ms_score1 = 0, ms_score2 = 0, phase = Lobby\<rparr>"

definition feedingState :: SnakeState where
  "feedingState = openingState\<lparr>food := \<lparr>cell_x = 5, cell_y = 8\<rparr>\<rparr>"

section \<open>The codec round trip\<close>

lemma sextets_bound: "\<forall>b\<in>set bs. b < 256 \<Longrightarrow> \<forall>s\<in>set (sextets bs). s < 64"
  by (induction bs rule: sextets.induct) (auto simp: less_mult_imp_div_less)

lemma byte_digits:
  assumes "(b::nat) < 256"
  shows "b div 16 div 16 = 0" "b div 16 mod 16 = b div 16" "b div 64 div 4 = 0" "b div 64 mod 4 = b div 64"
proof -
  have "b div 16 < 16" "b div 64 < 4" using assms by (simp_all add: less_mult_imp_div_less)
  then show "b div 16 div 16 = 0" "b div 16 mod 16 = b div 16" "b div 64 div 4 = 0" "b div 64 mod 4 = b div 64"
    by simp_all
qed

lemma unsextets_sextets: "\<forall>b\<in>set bs. b < 256 \<Longrightarrow> unsextets (sextets bs) = Some bs"
  by (induction bs rule: sextets.induct) (simp_all add: byte_digits)

lemma b64_table:
  "list_all (\<lambda>n. b64index (b64char n) = Some n \<and> b64char n \<noteq> CHR ''=''
       \<and> url_safe (b64char n) \<noteq> CHR ''='' \<and> url_unsafe (url_safe (b64char n)) = b64char n
       \<and> \<not> ascii_whitespace (b64char n)) [0..<64]"
  by code_simp

lemma b64_digit:
  assumes "n < 64"
  shows "b64index (b64char n) = Some n" "b64char n \<noteq> CHR ''=''"
    "url_safe (b64char n) \<noteq> CHR ''=''" "url_unsafe (url_safe (b64char n)) = b64char n"
    "\<not> ascii_whitespace (b64char n)"
  using b64_table assms by (simp_all add: list_all_iff)

lemma length_sextets:
  "length (sextets bs) = 4 * (length bs div 3) + (if length bs mod 3 = 0 then 0 else length bs mod 3 + 1)"
  by (induction bs rule: sextets.induct) simp_all

lemma pad_count:
  "(4 - length (sextets bs) mod 4) mod 4 = (3 - length bs mod 3) mod 3"
proof -
  have "length bs mod 3 = 0 \<or> length bs mod 3 = 1 \<or> length bs mod 3 = 2" by linarith
  then show ?thesis by (auto simp: length_sextets)
qed

lemma pad4_eq: "pad4 s = s @ replicate ((4 - length s mod 4) mod 4) (CHR ''='')"
proof (induction s rule: pad4.induct)
  case (1 s)
  show ?case
  proof (cases "length s mod 4 = 0")
    case True
    then show ?thesis by (simp add: pad4.simps[of s])
  next
    case False
    define m where "m = length s mod 4"
    have c: "Suc (length s) mod 4 = Suc m mod 4" by (simp add: m_def mod_Suc_eq)
    have "m < 4" by (simp add: m_def)
    with False have m: "m = 1 \<or> m = 2 \<or> m = 3" unfolding m_def by linarith
    then have "(4 - m) mod 4 = Suc ((4 - Suc m mod 4) mod 4)" by auto
    then have "replicate ((4 - m) mod 4) (CHR ''='') = CHR ''='' # replicate ((4 - Suc m mod 4) mod 4) (CHR ''='')"
      by simp
    with 1[OF False] False c show ?thesis
      by (simp add: pad4.simps[of s] m_def)
  qed
qed

lemma strip_trailing_eq_pad:
  assumes "CHR ''='' \<notin> set xs"
  shows "strip_trailing_eq (xs @ replicate k (CHR ''='')) = xs"
proof -
  have a: "dropWhile (\<lambda>c. c = CHR ''='') (replicate k (CHR ''='') @ ys) = dropWhile (\<lambda>c. c = CHR ''='') ys" for ys
    by (induction k) simp_all
  have b: "dropWhile (\<lambda>c. c = CHR ''='') (rev xs) = rev xs"
    using assms by (cases "rev xs") (auto simp: rev_eq_Cons_iff)
  show ?thesis by (simp add: strip_trailing_eq_def a b)
qed

lemma strip_padding_pad:
  assumes "CHR ''='' \<notin> set xs" "k \<le> 2" "(length xs + k) mod 4 = 0"
  shows "strip_padding (xs @ replicate k (CHR ''='')) = xs"
proof -
  have l: "xs \<noteq> [] \<Longrightarrow> last xs \<noteq> CHR ''=''" using assms(1) last_in_set by metis
  from assms(2) have "k = 0 \<or> k = 1 \<or> k = 2" by linarith
  then show ?thesis
  proof (elim disjE)
    assume "k = 0" then show ?thesis using l by (auto simp: strip_padding_def)
  next
    assume "k = 1" then show ?thesis using l assms(3) by (auto simp: strip_padding_def)
  next
    assume k: "k = 2"
    then have "xs @ replicate k (CHR ''='') = (xs @ ''='') @ ''=''" by (simp add: numeral_2_eq_2)
    then show ?thesis using assms(3) k by (simp add: strip_padding_def butlast_append last_append)
  qed
qed

lemma all_some_map: "\<forall>x\<in>set xs. f (g x) = Some x \<Longrightarrow> all_some (map f (map g xs)) = Some xs"
  by (induction xs) simp_all

lemma pad_arith:
  assumes "(4 - (L::nat) mod 4) mod 4 = k"
  shows "(L + k) mod 4 = 0" "k \<le> 2 \<Longrightarrow> L mod 4 \<noteq> 1"
proof -
  define m where "m = L mod 4"
  have "m < 4" by (simp add: m_def)
  then have m: "m = 0 \<or> m = 1 \<or> m = 2 \<or> m = 3" by linarith
  have "(L + k) mod 4 = (m + k) mod 4" unfolding m_def by (simp add: mod_add_left_eq)
  moreover have "(m + k) mod 4 = 0" using m assms unfolding m_def[symmetric] by auto
  ultimately show "(L + k) mod 4 = 0" by simp
  show "k \<le> 2 \<Longrightarrow> L mod 4 \<noteq> 1" using assms by auto
qed

lemma atob_btoa: "atob (btoa bytes) = Some bytes"
proof -
  let ?ns = "map unat bytes"
  let ?k = "(3 - length bytes mod 3) mod 3"
  let ?body = "map b64char (sextets ?ns)"
  have "unat b < 256" for b :: byte using unsigned_less[of b, where 'a=nat] by simp
  then have bnd: "\<forall>b\<in>set ?ns. b < 256" by auto
  then have sx: "\<forall>s\<in>set (sextets ?ns). s < 64" by (rule sextets_bound)
  have noeq: "CHR ''='' \<notin> set ?body"
  proof
    assume "CHR ''='' \<in> set ?body"
    then obtain n where "n \<in> set (sextets ?ns)" "b64char n = CHR ''=''" by auto
    with sx b64_digit(2) show False by blast
  qed
  have eqws: "\<not> ascii_whitespace (CHR ''='')" by code_simp
  have "\<not> ascii_whitespace c" if "c \<in> set (btoa bytes)" for c
  proof -
    from that have "c = CHR ''='' \<or> (\<exists>n\<in>set (sextets ?ns). c = b64char n)"
      by (auto simp: btoa_def)
    then show ?thesis using eqws sx b64_digit(5) by blast
  qed
  then have nows: "filter (\<lambda>c. \<not> ascii_whitespace c) (btoa bytes) = btoa bytes"
    by (simp add: filter_id_conv)
  have k2: "?k \<le> 2" by linarith
  have pc: "(4 - length ?body mod 4) mod 4 = ?k" using pad_count[of ?ns] by simp
  have len: "(length ?body + ?k) mod 4 = 0" using pc by (rule pad_arith(1))
  have sp: "strip_padding (btoa bytes) = ?body"
    unfolding btoa_def using strip_padding_pad[OF noeq k2 len] .
  have ne1: "length ?body mod 4 \<noteq> 1" using pc k2 by (rule pad_arith(2))
  have idx: "all_some (map b64index ?body) = Some (sextets ?ns)"
    using sx b64_digit(1) by (intro all_some_map) auto
  have r: "map word_of_nat ?ns = bytes" by (simp add: map_idI)
  show ?thesis
    using ne1 by (simp add: atob_def nows sp idx unsextets_sextets[OF bnd] r del: length_map map_map)
qed


lemma replace_safe: "replace_all (CHR ''/'') (CHR ''_'') (replace_all (CHR ''+'') (CHR ''-'') s) = map url_safe s"
  by (simp add: replace_all_def url_safe_def Let_def)

lemma replace_unsafe: "replace_all (CHR ''_'') (CHR ''/'') (replace_all (CHR ''-'') (CHR ''+'') s) = map url_unsafe s"
  by (simp add: replace_all_def url_unsafe_def Let_def)

lemma url_safe_eq: "url_safe (CHR ''='') = CHR ''=''"
  by code_simp

lemma decode_encode_base64:
  "pad4 (map url_unsafe (strip_trailing_eq (map url_safe (btoa bytes)))) = btoa bytes"
proof -
  let ?ns = "map unat bytes"
  let ?k = "(3 - length bytes mod 3) mod 3"
  let ?body = "map b64char (sextets ?ns)"
  have "unat b < 256" for b :: byte using unsigned_less[of b, where 'a=nat] by simp
  then have bnd: "\<forall>b\<in>set ?ns. b < 256" by auto
  then have sx: "\<forall>s\<in>set (sextets ?ns). s < 64" by (rule sextets_bound)
  have safe_btoa: "map url_safe (btoa bytes) = map url_safe ?body @ replicate ?k (CHR ''='')"
    by (simp add: btoa_def url_safe_eq del: map_map)
  have noeq: "CHR ''='' \<notin> set (map url_safe ?body)"
  proof
    assume "CHR ''='' \<in> set (map url_safe ?body)"
    then obtain n where "n \<in> set (sextets ?ns)" "url_safe (b64char n) = CHR ''=''" by auto
    with sx b64_digit(3) show False by blast
  qed
  have unsafe_safe: "map url_unsafe (map url_safe ?body) = ?body"
    using sx b64_digit(4) by (simp add: map_idI)
  have pc: "(4 - length ?body mod 4) mod 4 = ?k" using pad_count[of ?ns] by simp
  have "strip_trailing_eq (map url_safe (btoa bytes)) = map url_safe ?body"
    unfolding safe_btoa by (rule strip_trailing_eq_pad[OF noeq])
  then have "pad4 (map url_unsafe (strip_trailing_eq (map url_safe (btoa bytes)))) = pad4 ?body"
    by (simp only: unsafe_safe)
  also have "\<dots> = ?body @ replicate ?k (CHR ''='')"
    by (simp only: pad4_eq pc)
  finally show ?thesis by (simp only: btoa_def)
qed

text \<open>
  C1. For every session description \<open>d\<close> that survives the two library layers
  (\<open>JSON.parse\<close> inverts \<open>JSON.stringify\<close> on \<open>d\<close>, and \<open>pako.ungzip\<close> inverts \<open>pako.gzip\<close>
  on its serialisation), decoding the encoded token returns \<open>d\<close>:
  \<open>decodeFromURL (encodeForURL d) = d\<close>.
\<close>

theorem codec_round_trip:
  assumes "ungzip (gzip (stringify d)) = Some (stringify d)"
    and "parse (stringify d) = Some d"
  shows "decodeFromURL ungzip parse (encodeForURL stringify gzip d) = Some d"
  using assms
  by (simp add: decodeFromURL_def encodeForURL_def Let_def replace_safe replace_unsafe
      decode_encode_base64 atob_btoa)

theorem codec_round_trip_witness:
  "decodeFromURL (\<lambda>bytes. Some (map (\<lambda>b. char_of (unat b)) bytes))
     (\<lambda>s. if s = ''{sdp:v=0,type:offer}'' then Some (''v=0'', ''offer'') else None)
     (encodeForURL (\<lambda>d. ''{sdp:'' @ fst d @ '',type:'' @ snd d @ ''}'')
        (map (\<lambda>c. of_nat (of_char c))) (''v=0'', ''offer''))
   = Some (''v=0'', ''offer'')"
proof -
  have "map (\<lambda>b::byte. char_of (unat b)) (map (\<lambda>c. of_nat (of_char c)) ''{sdp:v=0,type:offer}'')
        = ''{sdp:v=0,type:offer}''"
    by code_simp
  then show ?thesis
    using codec_round_trip[of "\<lambda>bytes. Some (map (\<lambda>b. char_of (unat b)) bytes)"
        "map (\<lambda>c. of_nat (of_char c))" "\<lambda>d. ''{sdp:'' @ fst d @ '',type:'' @ snd d @ ''}''"
        "(''v=0'', ''offer'')"
        "\<lambda>s. if s = ''{sdp:v=0,type:offer}'' then Some (''v=0'', ''offer'') else None"]
    by simp
qed

section \<open>Sending changes the list of sent messages only\<close>

lemma pg_send_fields [simp]:
  "pg_role (pg_send m s) = pg_role s"
  "pg_gamePhase (pg_send m s) = pg_gamePhase s"
  "pg_countdown (pg_send m s) = pg_countdown s"
  "pg_countdownTimer (pg_send m s) = pg_countdownTimer s"
  "pg_gameLoop (pg_send m s) = pg_gameLoop s"
  "pg_connected (pg_send m s) = pg_connected s"
  "pg_gameState (pg_send m s) = pg_gameState s"
  "pg_scores (pg_send m s) = pg_scores s"
  "pg_ballSpeed (pg_send m s) = pg_ballSpeed s"
  "pg_keys (pg_send m s) = pg_keys s"
  "pg_channel (pg_send m s) = pg_channel s"
  "pg_dataChannelRef (pg_send m s) = pg_dataChannelRef s"
  "pg_peer (pg_send m s) = pg_peer s"
  "pg_peerConnectionRef (pg_send m s) = pg_peerConnectionRef s"
  "pg_hostFaceImage (pg_send m s) = pg_hostFaceImage s"
  "pg_guestFaceImage (pg_send m s) = pg_guestFaceImage s"
  "pg_sprites (pg_send m s) = pg_sprites s"
  by (simp_all add: pg_send_def)

lemma ms_send_fields [simp]:
  "ms_role (ms_send m s) = ms_role s"
  "ms_gamePhase (ms_send m s) = ms_gamePhase s"
  "ms_gamePhaseRef (ms_send m s) = ms_gamePhaseRef s"
  "ms_countdown (ms_send m s) = ms_countdown s"
  "ms_countdownTimer (ms_send m s) = ms_countdownTimer s"
  "ms_interval (ms_send m s) = ms_interval s"
  "ms_speed (ms_send m s) = ms_speed s"
  "ms_dir1Ref (ms_send m s) = ms_dir1Ref s"
  "ms_dir2Ref (ms_send m s) = ms_dir2Ref s"
  "ms_gameState (ms_send m s) = ms_gameState s"
  "ms_scores (ms_send m s) = ms_scores s"
  "ms_connected (ms_send m s) = ms_connected s"
  "ms_channel (ms_send m s) = ms_channel s"
  "ms_channelRef (ms_send m s) = ms_channelRef s"
  "ms_peer (ms_send m s) = ms_peer s"
  "ms_peerRef (ms_send m s) = ms_peerRef s"
  "ms_pixi (ms_send m s) = ms_pixi s"
  by (simp_all add: ms_send_def)

section \<open>Small facts about the stages of the two step functions\<close>

lemma movePaddle1_fields [simp]:
  "ball (movePaddle1 keys g) = ball g"
  "paddle2Y (movePaddle1 keys g) = paddle2Y g"
  "score1 (movePaddle1 keys g) = score1 g"
  "score2 (movePaddle1 keys g) = score2 g"
  by (simp_all add: movePaddle1_def Let_def)

lemma commitMove_dirs:
  "commitMove draws st n1 n2 = Some (st', a) \<Longrightarrow> dir1 st' = dir1 st \<and> dir2 st' = dir2 st"
  by (auto simp: commitMove_def Let_def split: if_splits option.splits)


section \<open>The concrete sessions, evaluated\<close>

lemma floor_draw: "\<lfloor>(1::real) / 2 * 24\<rfloor> = 12" "\<lfloor>(1::real) / 4 * 16\<rfloor> = 4"
  by simp_all

lemma pongHostOpened_eq:
  "pongHostOpened =
     PongGame_init\<lparr>pg_role := Host, pg_gamePhase := PCountdown, pg_countdownTimer := Some 2,
                   pg_gameLoop := True, pg_connected := True,
                   pg_channel := Some Open, pg_dataChannelRef := True,
                   pg_peer := Some True, pg_peerConnectionRef := True,
                   pg_sent := [msg_settings 5, msg_countdown 3], pg_sprites := True\<rparr>"
  by (simp add: pongHostOpened_def PongGame_initPixi_def PongGame_onopen_def
      PongGame_createGame_def PongGame_init_def PongGame_startCountdown_def PongGame_tick_def
      setConnected_def pg_channel_send_def pg_send_def Let_def)

lemma pongHostPlaying_eq:
  "pongHostPlaying =
     PongGame_init\<lparr>pg_role := Host, pg_gamePhase := PPlaying, pg_countdown := JNum 0,
                   pg_gameLoop := True, pg_connected := True,
                   pg_channel := Some Open, pg_dataChannelRef := True,
                   pg_peer := Some True, pg_peerConnectionRef := True,
                   pg_sent := [msg_settings 5, msg_countdown 3, msg_countdown 2,
                               msg_countdown 1, msg_countdown 0, msg_playing],
                   pg_sprites := True\<rparr>"
  by (simp add: pongHostPlaying_def pongHostOpened_eq numeral_3_eq_3 PongGame_timeout_def
      PongGame_init_def PongGame_tick_def pg_send_def Let_def)

lemma pongGuestOpened_eq:
  "pongGuestOpened =
     PongGame_init\<lparr>pg_role := Guest, pg_gamePhase := PLobby,
                   pg_gameLoop := True, pg_connected := True,
                   pg_channel := Some Open, pg_dataChannelRef := True,
                   pg_peer := Some True, pg_peerConnectionRef := True, pg_sprites := True\<rparr>"
  by (simp add: pongGuestOpened_def PongGame_initPixi_def PongGame_onopen_def
      PongGame_ondatachannel_def PongGame_handleIncomingOffer_def PongGame_init_def
      setConnected_def Let_def)

lemma snakeHostOpened_eq:
  "snakeHostOpened =
     MultiSnake_init\<lparr>ms_role := Host, ms_gamePhase := Countdown, ms_gamePhaseRef := Countdown,
                     ms_countdownTimer := Some 2,
                     ms_gameState := WS (openingState\<lparr>food := \<lparr>cell_x = 12, cell_y = 4\<rparr>\<rparr>),
                     ms_connected := True, ms_channel := Some Open, ms_channelRef := True,
                     ms_peer := Some True, ms_peerRef := True,
                     ms_sent := [msg_countdown 3], ms_pixi := True\<rparr>"
  by (simp add: snakeHostOpened_def MultiSnake_initPixi_def MultiSnake_onopen_def
      MultiSnake_createGame_def MultiSnake_init_def MultiSnake_startCountdown_def
      MultiSnake_tick_def resetGameState_def stopInterval_def ms_send_def Let_def
      randomCell_def startSnake1_def startSnake2_def openingState_def floor_draw)

lemma snakeHostPlaying_eq:
  "snakeHostPlaying =
     MultiSnake_init\<lparr>ms_role := Host, ms_gamePhase := Playing, ms_gamePhaseRef := Playing,
                     ms_countdown := JNum 0, ms_interval := Some INITIAL_INTERVAL,
                     ms_gameState := WS (openingState\<lparr>food := \<lparr>cell_x = 12, cell_y = 4\<rparr>\<rparr>),
                     ms_connected := True, ms_channel := Some Open, ms_channelRef := True,
                     ms_peer := Some True, ms_peerRef := True,
                     ms_sent := [msg_countdown 3, msg_countdown 2, msg_countdown 1,
                                 msg_countdown 0, msg_playing],
                     ms_pixi := True\<rparr>"
  by (simp add: snakeHostPlaying_def snakeHostOpened_eq numeral_3_eq_3 MultiSnake_timeout_def
      MultiSnake_init_def MultiSnake_tick_def stopInterval_def ms_send_def Let_def)

lemma snakeGuestOpened_eq:
  "snakeGuestOpened =
     MultiSnake_init\<lparr>ms_role := Guest, ms_gamePhase := Lobby, ms_gamePhaseRef := Lobby,
                     ms_connected := True, ms_channel := Some Open, ms_channelRef := True,
                     ms_peer := Some True, ms_peerRef := True, ms_pixi := True\<rparr>"
  by (simp add: snakeGuestOpened_def MultiSnake_initPixi_def MultiSnake_onopen_def
      MultiSnake_ondatachannel_def MultiSnake_handleIncomingOffer_def MultiSnake_init_def Let_def)

lemma snakeGuestPlaying_eq:
  "snakeGuestPlaying =
     MultiSnake_init\<lparr>ms_role := Guest, ms_gamePhase := Playing, ms_gamePhaseRef := Playing,
                     ms_countdown := JNum 0,
                     ms_connected := True, ms_channel := Some Open, ms_channelRef := True,
                     ms_peer := Some True, ms_peerRef := True, ms_pixi := True\<rparr>"
  by (simp add: snakeGuestPlaying_def snakeGuestOpened_eq MultiSnake_receive_def
      MultiSnake_onmessage_def msg_countdown_def msg_playing_def MultiSnake_init_def Let_def)
section \<open>Control input at the host\<close>

lemma stepGame_copies_directions:
  assumes "ms_gamePhaseRef r = Playing" and "ms_gameState r = WS h"
  shows "\<exists>h'. ms_gameState (snd (MultiSnake_stepGame draws r)) = WS h'
              \<and> dir1 h' = ms_dir1Ref r \<and> dir2 h' = ms_dir2Ref r"
  using assms
  by (auto simp: MultiSnake_stepGame_def Let_def stopInterval_def updateScores_def
      split: option.splits prod.splits dest: commitMove_dirs)

lemma host_onmessage_keeps_world:
  assumes "ms_role m = Host"
  shows "ms_gameState (snd (MultiSnake_onmessage parsed m)) = ms_gameState m"
  using assms
  by (auto simp: MultiSnake_onmessage_def Let_def split: option.splits)

lemma opposite_of_Direction [simp]:
  "opposite_of (json_of_Direction c) = Some (json_of_Direction (opposite c))"
  by (cases c) (simp_all add: opposite_of_def)

lemma json_of_Direction_inj [simp]:
  "json_of_Direction d = json_of_Direction c \<longleftrightarrow> d = c"
  by (cases d; cases c) simp_all

lemma truthy_Direction [simp]: "truthy (Some (json_of_Direction d))"
  by (cases d) simp_all

lemma strict_neq_Direction [simp]:
  "strict_neq (Some (json_of_Direction d)) b \<longleftrightarrow> Some (json_of_Direction d) \<noteq> b"
  by (cases d) simp_all

lemma host_input_replaces_pending:
  assumes "ms_role m = Host" and "ms_dir2Ref m = json_of_Direction c"
  shows "MultiSnake_onmessage
           (Some (JObj [(''type'', JStr ''input''), (''direction'', json_of_Direction d)])) m
         = (None, if d = opposite c then m else m\<lparr>ms_dir2Ref := json_of_Direction d\<rparr>)"
  using assms
  by (simp add: MultiSnake_onmessage_def Let_def)

lemma pg_input_up:
  assumes "pg_role p = Host" and "pg_gameState p = WS g"
  shows "PongGame_onmessage (Some (msg_input ''up'')) p
         = (None, p\<lparr>pg_gameState := WS (g\<lparr>paddle2Y := max 0 (paddle2Y g - PADDLE_SPEED)\<rparr>)\<rparr>)"
  using assms by (simp add: PongGame_onmessage_def msg_input_def Let_def)

lemma pg_input_down:
  assumes "pg_role p = Host" and "pg_gameState p = WS g"
  shows "PongGame_onmessage (Some (msg_input ''down'')) p
         = (None, p\<lparr>pg_gameState := WS (g\<lparr>paddle2Y := min (CANVAS_HEIGHT - PADDLE_HEIGHT)
                                                         (paddle2Y g + PADDLE_SPEED)\<rparr>)\<rparr>)"
  using assms by (simp add: PongGame_onmessage_def msg_input_def Let_def)

lemma updateGame_outside_playing:
  assumes "pg_role p = Host" and "pg_gameState p = WS g" and "pg_gamePhase p \<noteq> PPlaying"
  shows "pg_gameState (snd (PongGame_updateGame rnd1 rnd2 p)) = WS (movePaddle1 (pg_keys p) g)"
  using assms by (simp add: PongGame_updateGame_def Let_def)

text \<open>
  C2, as amended. In the chase game the network callback never changes the host's world
  state, whatever the message: a control input that names a direction replaces the pending
  direction \<open>dir2Ref\<close>, unless it names the opposite of the pending direction, and then it
  changes nothing; \<open>stepGame\<close> copies the pending directions into the world state when it
  next runs, so the direction of a control input is in the world state after the next
  step; and \<open>stepGame\<close> does nothing at all while the phase is not playing. In the paddle
  game the callback applies a control input at once, in every phase (session \<open>p\<close>, of any
  phase): paddle 2 moves by \<open>PADDLE_SPEED\<close>, clamped to the playfield, and nothing else
  changes; outside the playing phase (session \<open>p2\<close>) \<open>updateGame\<close> moves the host's own
  paddle and leaves the ball, the scores and paddle 2 alone.
\<close>

theorem control_input_application:
  assumes "pg_role p = Host" and "pg_gameState p = WS g"
    and "pg_role p2 = Host" and "pg_gameState p2 = WS g2" and "pg_gamePhase p2 \<noteq> PPlaying"
    and "ms_role m = Host" and "ms_dir2Ref m = json_of_Direction c"
    and "ms_gamePhaseRef q \<noteq> Playing"
    and "ms_gamePhaseRef r = Playing" and "ms_gameState r = WS h"
    and "ms_role n = Host" and "ms_dir2Ref n = json_of_Direction c'" and "d' \<noteq> opposite c'"
    and "ms_gamePhaseRef n = Playing" and "ms_gameState n = WS k"
  shows "PongGame_onmessage (Some (msg_input ''up'')) p
           = (None, p\<lparr>pg_gameState := WS (g\<lparr>paddle2Y := max 0 (paddle2Y g - PADDLE_SPEED)\<rparr>)\<rparr>)
       \<and> PongGame_onmessage (Some (msg_input ''down'')) p
           = (None, p\<lparr>pg_gameState := WS (g\<lparr>paddle2Y := min (CANVAS_HEIGHT - PADDLE_HEIGHT)
                                                           (paddle2Y g + PADDLE_SPEED)\<rparr>)\<rparr>)
       \<and> (\<exists>g'. pg_gameState (snd (PongGame_updateGame rnd1 rnd2 p2)) = WS g'
                \<and> ball g' = ball g2 \<and> score1 g' = score1 g2 \<and> score2 g' = score2 g2
                \<and> paddle2Y g' = paddle2Y g2)
       \<and> ms_gameState (snd (MultiSnake_onmessage parsed m)) = ms_gameState m
       \<and> MultiSnake_onmessage
           (Some (JObj [(''type'', JStr ''input''), (''direction'', json_of_Direction d)])) m
           = (None, if d = opposite c then m else m\<lparr>ms_dir2Ref := json_of_Direction d\<rparr>)
       \<and> MultiSnake_stepGame draws q = (None, q)
       \<and> (\<exists>h'. ms_gameState (snd (MultiSnake_stepGame draws r)) = WS h'
                \<and> dir1 h' = ms_dir1Ref r \<and> dir2 h' = ms_dir2Ref r)
       \<and> (\<exists>k'. ms_gameState (snd (MultiSnake_stepGame draws
                   (snd (MultiSnake_onmessage
                      (Some (JObj [(''type'', JStr ''input''), (''direction'', json_of_Direction d')]))
                      n)))) = WS k'
                \<and> dir2 k' = json_of_Direction d')"
proof -
  let ?n' = "n\<lparr>ms_dir2Ref := json_of_Direction d'\<rparr>"
  have n': "MultiSnake_onmessage
              (Some (JObj [(''type'', JStr ''input''), (''direction'', json_of_Direction d')])) n
            = (None, ?n')"
    using host_input_replaces_pending[OF assms(11,12), of d'] assms(13) by simp
  have "ms_gamePhaseRef ?n' = Playing" "ms_gameState ?n' = WS k"
    using assms(14,15) by simp_all
  from stepGame_copies_directions[OF this, of draws]
  have last: "\<exists>k'. ms_gameState (snd (MultiSnake_stepGame draws ?n')) = WS k'
                \<and> dir2 k' = json_of_Direction d'"
    by auto
  show ?thesis
    using pg_input_up[OF assms(1,2)] pg_input_down[OF assms(1,2)]
      host_onmessage_keeps_world[OF assms(6)] host_input_replaces_pending[OF assms(6,7), of d]
      stepGame_copies_directions[OF assms(9,10)] assms(8)
      updateGame_outside_playing[OF assms(3,4,5)] last
    by (simp add: MultiSnake_stepGame_def n')
qed

text \<open>
  The hosts of sessions made of events: the paddle game with the countdown run out (\<open>p\<close>)
  and right after the channel has opened (\<open>p2\<close>), the chase game right after the channel
  has opened (\<open>m\<close>, \<open>q\<close>) and with the countdown run out (\<open>r\<close>, \<open>n\<close>). A control input
  \<open>up\<close> arrives at each.
\<close>

theorem control_input_application_witness:
  "pg_role pongHostPlaying = Host \<and> pg_gamePhase pongHostPlaying = PPlaying
   \<and> pg_channel pongHostPlaying = Some Open
   \<and> pg_gameState pongHostPlaying = WS (initialGameState 5)
   \<and> pg_role pongHostOpened = Host \<and> pg_gamePhase pongHostOpened = PCountdown
   \<and> pg_gameState pongHostOpened = WS (initialGameState 5)
   \<and> ms_role snakeHostOpened = Host \<and> ms_channel snakeHostOpened = Some Open
   \<and> ms_dir2Ref snakeHostOpened = json_of_Direction Left
   \<and> ms_gamePhaseRef snakeHostOpened = Countdown
   \<and> ms_role snakeHostPlaying = Host \<and> ms_gamePhaseRef snakeHostPlaying = Playing
   \<and> ms_dir2Ref snakeHostPlaying = json_of_Direction Left
   \<and> ms_gameState snakeHostPlaying = WS (openingState\<lparr>food := \<lparr>cell_x = 12, cell_y = 4\<rparr>\<rparr>)
   \<and> PongGame_onmessage (Some (msg_input ''up'')) pongHostPlaying
       = (None, pongHostPlaying\<lparr>pg_gameState := WS ((initialGameState 5)\<lparr>paddle2Y := 228\<rparr>)\<rparr>)
   \<and> MultiSnake_onmessage
       (Some (JObj [(''type'', JStr ''input''), (''direction'', JStr ''up'')])) snakeHostOpened
       = (None, snakeHostOpened\<lparr>ms_dir2Ref := JStr ''up''\<rparr>)
   \<and> ms_gameState (snd (MultiSnake_onmessage
       (Some (JObj [(''type'', JStr ''input''), (''direction'', JStr ''up'')])) snakeHostOpened))
       = WS (openingState\<lparr>food := \<lparr>cell_x = 12, cell_y = 4\<rparr>\<rparr>)
   \<and> MultiSnake_stepGame [] snakeHostOpened = (None, snakeHostOpened)
   \<and> (\<exists>k'. ms_gameState (snd (MultiSnake_stepGame []
               (snd (MultiSnake_onmessage
                  (Some (JObj [(''type'', JStr ''input''), (''direction'', JStr ''up'')]))
                  snakeHostPlaying)))) = WS k'
            \<and> dir2 k' = JStr ''up'')"
proof -
  have p: "pg_role pongHostPlaying = Host" "pg_gameState pongHostPlaying = WS (initialGameState 5)"
    by (simp_all add: pongHostPlaying_eq PongGame_init_def)
  have p2: "pg_role pongHostOpened = Host" "pg_gameState pongHostOpened = WS (initialGameState 5)"
    "pg_gamePhase pongHostOpened \<noteq> PPlaying"
    by (simp_all add: pongHostOpened_eq PongGame_init_def)
  have m: "ms_role snakeHostOpened = Host" "ms_dir2Ref snakeHostOpened = json_of_Direction Left"
    by (simp_all add: snakeHostOpened_eq MultiSnake_init_def)
  have q: "ms_gamePhaseRef snakeHostOpened \<noteq> Playing"
    by (simp add: snakeHostOpened_eq)
  have r: "ms_gamePhaseRef snakeHostPlaying = Playing"
    "ms_gameState snakeHostPlaying = WS (openingState\<lparr>food := \<lparr>cell_x = 12, cell_y = 4\<rparr>\<rparr>)"
    by (simp_all add: snakeHostPlaying_eq)
  have n: "ms_role snakeHostPlaying = Host" "ms_dir2Ref snakeHostPlaying = json_of_Direction Left"
    "Up \<noteq> opposite Left"
    by (simp_all add: snakeHostPlaying_eq MultiSnake_init_def)
  have e: "pg_gamePhase pongHostPlaying = PPlaying" "pg_channel pongHostPlaying = Some Open"
    "pg_gamePhase pongHostOpened = PCountdown" "ms_channel snakeHostOpened = Some Open"
    "ms_gamePhaseRef snakeHostOpened = Countdown"
    "ms_gameState snakeHostOpened = WS (openingState\<lparr>food := \<lparr>cell_x = 12, cell_y = 4\<rparr>\<rparr>)"
    "paddle2Y (initialGameState 5) = 236"
    by (simp_all add: pongHostPlaying_eq pongHostOpened_eq snakeHostOpened_eq initialGameState_def)
  show ?thesis
    using p p2 m r n e
      control_input_application[OF p p2 m q r n r, where d=Up and draws="[]"
        and parsed="Some (JObj [(''type'', JStr ''input''), (''direction'', JStr ''up'')])"]
    by simp
qed

text \<open>
  The host of the paddle game right after its channel has opened: the phase is
  countdown, not playing. A control input arrives, and paddle 2 has moved when the
  callback returns. The host then presses a key, and the next animation frame moves
  paddle 1, still in the countdown.
\<close>

theorem control_input_deferred_counterexample:
  "pg_role pongHostOpened = Host \<and> pg_channel pongHostOpened = Some Open
   \<and> pg_gamePhase pongHostOpened = PCountdown
   \<and> pg_gameState pongHostOpened = WS (initialGameState 5)
   \<and> paddle1Y (initialGameState 5) = 236 \<and> paddle2Y (initialGameState 5) = 236
   \<and> PongGame_onmessage (Some (msg_input ''up'')) pongHostOpened
       = (None, pongHostOpened\<lparr>pg_gameState := WS ((initialGameState 5)\<lparr>paddle2Y := 228\<rparr>)\<rparr>)
   \<and> pg_gamePhase (PongGame_handleKeyDown ''ArrowUp'' pongHostOpened) = PCountdown
   \<and> pg_gameState (snd (PongGame_frame 0 0 (PongGame_handleKeyDown ''ArrowUp'' pongHostOpened)))
       = WS ((initialGameState 5)\<lparr>paddle1Y := 228\<rparr>)"
  by (simp add: pongHostOpened_eq PongGame_onmessage_def msg_input_def Let_def
      PongGame_init_def initialGameState_def PongGame_handleKeyDown_def PongGame_frame_def
      PongGame_updateGame_def movePaddle1_def pg_send_def)
section \<open>The countdown\<close>

text \<open>What one call of \<open>tick\<close> leaves in the fields the countdown is about.\<close>

lemma pg_tick_fields:
  "pg_gamePhase (PongGame_tick v s) = (if v \<le> 0 then PPlaying else pg_gamePhase s)"
  "pg_countdown (PongGame_tick v s) = JNum v"
  "pg_countdownTimer (PongGame_tick v s) = (if v \<le> 0 then pg_countdownTimer s else Some (v - 1))"
  "pg_gameLoop (PongGame_tick v s) = pg_gameLoop s"
  "pg_role (PongGame_tick v s) = pg_role s"
  by (simp_all add: PongGame_tick_def Let_def)

lemma ms_tick_fields:
  "ms_gamePhaseRef (MultiSnake_tick v s) = (if v \<le> 0 then Playing else ms_gamePhaseRef s)"
  "ms_gamePhase (MultiSnake_tick v s) = (if v \<le> 0 then Playing else ms_gamePhase s)"
  "ms_countdown (MultiSnake_tick v s) = JNum v"
  "ms_countdownTimer (MultiSnake_tick v s) = (if v \<le> 0 then ms_countdownTimer s else Some (v - 1))"
  "ms_interval (MultiSnake_tick v s)
     = (if v \<le> 0 \<and> ms_role s = Host then Some (ms_speed s) else ms_interval s)"
  "ms_role (MultiSnake_tick v s) = ms_role s"
  "ms_speed (MultiSnake_tick v s) = ms_speed s"
  by (simp_all add: MultiSnake_tick_def Let_def stopInterval_def)

lemma pg_countdown_run:
  assumes "k \<le> n"
  shows "pg_gamePhase ((PongGame_timeout ^^ k) (PongGame_startCountdown (real n) s))
           = (if k < n then PCountdown else PPlaying)
       \<and> pg_countdown ((PongGame_timeout ^^ k) (PongGame_startCountdown (real n) s)) = JNum (real (n - k))
       \<and> pg_countdownTimer ((PongGame_timeout ^^ k) (PongGame_startCountdown (real n) s))
           = (if k < n then Some (real (n - k) - 1) else None)
       \<and> pg_gameLoop ((PongGame_timeout ^^ k) (PongGame_startCountdown (real n) s)) = pg_gameLoop s
       \<and> pg_role ((PongGame_timeout ^^ k) (PongGame_startCountdown (real n) s)) = pg_role s"
  using assms
proof (induction k)
  case 0
  then show ?case by (simp add: PongGame_startCountdown_def pg_tick_fields)
next
  case (Suc k)
  then have k: "k < n" and ih: "pg_countdownTimer ((PongGame_timeout ^^ k) (PongGame_startCountdown (real n) s))
      = Some (real (n - k) - 1)" by simp_all
  have r: "real (n - k) - 1 = real (n - Suc k)" using k by (simp add: of_nat_diff)
  have z: "real (n - Suc k) \<le> 0 \<longleftrightarrow> \<not> Suc k < n" by auto
  from Suc k show ?case
    by (simp add: PongGame_timeout_def ih pg_tick_fields r z)
qed

lemma ms_countdown_run:
  assumes "k \<le> n"
  shows "ms_gamePhaseRef ((MultiSnake_timeout ^^ k) (MultiSnake_startCountdown (real n) s))
           = (if k < n then Countdown else Playing)
       \<and> ms_gamePhase ((MultiSnake_timeout ^^ k) (MultiSnake_startCountdown (real n) s))
           = (if k < n then Countdown else Playing)
       \<and> ms_countdown ((MultiSnake_timeout ^^ k) (MultiSnake_startCountdown (real n) s)) = JNum (real (n - k))
       \<and> ms_countdownTimer ((MultiSnake_timeout ^^ k) (MultiSnake_startCountdown (real n) s))
           = (if k < n then Some (real (n - k) - 1) else None)
       \<and> ms_interval ((MultiSnake_timeout ^^ k) (MultiSnake_startCountdown (real n) s))
           = (if k < n \<or> ms_role s \<noteq> Host then ms_interval s else Some (ms_speed s))
       \<and> ms_role ((MultiSnake_timeout ^^ k) (MultiSnake_startCountdown (real n) s)) = ms_role s
       \<and> ms_speed ((MultiSnake_timeout ^^ k) (MultiSnake_startCountdown (real n) s)) = ms_speed s"
  using assms
proof (induction k)
  case 0
  then show ?case by (simp add: MultiSnake_startCountdown_def ms_tick_fields)
next
  case (Suc k)
  then have k: "k < n" and ih: "ms_countdownTimer ((MultiSnake_timeout ^^ k) (MultiSnake_startCountdown (real n) s))
      = Some (real (n - k) - 1)" by simp_all
  have r: "real (n - k) - 1 = real (n - Suc k)" using k by (simp add: of_nat_diff)
  have z: "real (n - Suc k) \<le> 0 \<longleftrightarrow> \<not> Suc k < n" by auto
  from Suc k show ?case
    by (simp add: MultiSnake_timeout_def ih ms_tick_fields r z)
qed


text \<open>
  C3, as amended. After \<open>startCountdown(n)\<close> the phase is countdown; each run of the
  countdown timer lowers the count by one (\<open>n\<close>, \<open>n - 1\<close>, \<dots>, \<open>0\<close>), and the phase becomes
  playing at the \<open>n\<close>-th run, when the count is zero, and not before. At that run the host
  of the chase game starts the step interval, with the period \<open>speedRef\<close>, and the interval
  is as it was until then; in the paddle game the countdown never touches the frame loop.
  The source calls \<open>startCountdown()\<close> with its default, \<open>n = 3\<close>.
\<close>

theorem countdown_reaches_playing:
  assumes "k \<le> n" and "ms_role m = Host"
  shows "pg_gamePhase ((PongGame_timeout ^^ k) (PongGame_startCountdown (real n) p))
           = (if k < n then PCountdown else PPlaying)
       \<and> pg_countdown ((PongGame_timeout ^^ k) (PongGame_startCountdown (real n) p)) = JNum (real (n - k))
       \<and> pg_gameLoop ((PongGame_timeout ^^ k) (PongGame_startCountdown (real n) p)) = pg_gameLoop p
       \<and> ms_gamePhaseRef ((MultiSnake_timeout ^^ k) (MultiSnake_startCountdown (real n) m))
           = (if k < n then Countdown else Playing)
       \<and> ms_gamePhase ((MultiSnake_timeout ^^ k) (MultiSnake_startCountdown (real n) m))
           = (if k < n then Countdown else Playing)
       \<and> ms_countdown ((MultiSnake_timeout ^^ k) (MultiSnake_startCountdown (real n) m)) = JNum (real (n - k))
       \<and> ms_interval ((MultiSnake_timeout ^^ k) (MultiSnake_startCountdown (real n) m))
           = (if k < n then ms_interval m else Some (ms_speed m))"
  using pg_countdown_run[OF assms(1), of p] ms_countdown_run[OF assms(1), of m] assms(2)
  by simp

theorem countdown_reaches_playing_witness:
  "(3::nat) \<le> 3 \<and> ms_role (MultiSnake_init\<lparr>ms_role := Host\<rparr>) = Host
   \<and> pg_gamePhase ((PongGame_timeout ^^ 3) (PongGame_startCountdown 3 (PongGame_createGame PongGame_init)))
       = PPlaying
   \<and> pg_countdown ((PongGame_timeout ^^ 3) (PongGame_startCountdown 3 (PongGame_createGame PongGame_init)))
       = JNum 0
   \<and> ms_gamePhaseRef ((MultiSnake_timeout ^^ 3) (MultiSnake_startCountdown 3 (MultiSnake_init\<lparr>ms_role := Host\<rparr>)))
       = Playing
   \<and> ms_interval ((MultiSnake_timeout ^^ 3) (MultiSnake_startCountdown 3 (MultiSnake_init\<lparr>ms_role := Host\<rparr>)))
       = Some 150"
  using countdown_reaches_playing[of 3 3 "MultiSnake_init\<lparr>ms_role := Host\<rparr>" "PongGame_createGame PongGame_init"]
  by (simp add: MultiSnake_init_def)

text \<open>
  In the paddle game the frame loop, the only timer that runs \<open>updateGame\<close>, is started
  when the channel opens: it is running while the phase is countdown, one tick before the
  transition, and the transition starts nothing.
\<close>

theorem countdown_starts_timer_counterexample:
  "pg_gamePhase ((PongGame_timeout ^^ 2) (PongGame_onopen (PongGame_createGame PongGame_init))) = PCountdown
   \<and> pg_countdown ((PongGame_timeout ^^ 2) (PongGame_onopen (PongGame_createGame PongGame_init))) = JNum 1
   \<and> pg_gameLoop ((PongGame_timeout ^^ 2) (PongGame_onopen (PongGame_createGame PongGame_init)))
   \<and> pg_gamePhase ((PongGame_timeout ^^ 3) (PongGame_onopen (PongGame_createGame PongGame_init))) = PPlaying"
  by (simp add: numeral_3_eq_3 numeral_2_eq_2 PongGame_timeout_def PongGame_onopen_def
      PongGame_createGame_def PongGame_init_def PongGame_startCountdown_def PongGame_tick_def
      setConnected_def pg_channel_send_def pg_send_def Let_def)

section \<open>State snapshots at the guest\<close>






lemma Cell_json_inverse: "Cell_of_json (json_of_Cell c) = Some c"
  by (simp add: Cell_of_json_def json_of_Cell_def num_member_def)

lemma GamePhase_json_inverse: "GamePhase_of_json (json_of_GamePhase p) = Some p"
  by (cases p) (simp_all add: GamePhase_of_json_def)

lemma cells_member_inverse:
  "member j k = Some (JArr (map json_of_Cell cs)) \<Longrightarrow> cells_member j k = Some cs"
  by (simp add: cells_member_def all_some_map Cell_json_inverse del: map_map)

lemma SnakeState_json_inverse: "SnakeState_of_json (json_of_SnakeState g) = Some g"
proof -
  let ?j = "json_of_SnakeState g"
  have c: "cells_member ?j ''snake1'' = Some (snake1 g)" "cells_member ?j ''snake2'' = Some (snake2 g)"
    by (rule cells_member_inverse, simp add: json_of_SnakeState_def)+
  have m: "member ?j ''dir1'' = Some (dir1 g)" "member ?j ''dir2'' = Some (dir2 g)"
    "member ?j ''food'' = Some (json_of_Cell (food g))"
    "member ?j ''phase'' = Some (json_of_GamePhase (phase g))"
    "num_member ?j ''score1'' = Some (ms_score1 g)" "num_member ?j ''score2'' = Some (ms_score2 g)"
    by (simp_all add: json_of_SnakeState_def num_member_def)
  have r: "\<lparr>snake1 = snake1 g, snake2 = snake2 g, dir1 = dir1 g, dir2 = dir2 g,
         food = food g, ms_score1 = ms_score1 g, ms_score2 = ms_score2 g,
         phase = phase g\<rparr> = g"
    by simp
  show ?thesis
    by (simp add: SnakeState_of_json_def c m Cell_json_inverse GamePhase_json_inverse Let_def r)
qed

lemma draw_well_formed: "\<not> draw_throws (json_of_SnakeState g)"
proof -
  have "JNull \<notin> set (map json_of_Cell cells)" for cells
    by (auto simp: json_of_Cell_def)
  then show ?thesis
    by (simp add: draw_throws_def cells_throw_def json_of_SnakeState_def json_of_Cell_def
        del: set_map)
qed

lemma ms_snapshot_step:
  assumes "ms_role s = Guest"
  shows "MultiSnake_onmessage (Some (msg_gameState (json_of_SnakeState g))) s
         = (None, s\<lparr>ms_gameState := WS g,
                     ms_scores := (Some (JNum (ms_score1 g)), Some (JNum (ms_score2 g)))\<rparr>)"
proof -
  have m: "member (msg_gameState (json_of_SnakeState g)) ''type'' = Some (JStr ''gameState'')"
    "member (msg_gameState (json_of_SnakeState g)) ''state'' = Some (json_of_SnakeState g)"
    by (simp_all add: msg_gameState_def)
  have nn: "msg_gameState (json_of_SnakeState g) \<noteq> JNull" "json_of_SnakeState g \<noteq> JNull"
    by (simp_all add: msg_gameState_def json_of_SnakeState_def)
  have sc: "member (json_of_SnakeState g) ''score1'' = Some (JNum (ms_score1 g))"
    "member (json_of_SnakeState g) ''score2'' = Some (JNum (ms_score2 g))"
    by (simp_all add: json_of_SnakeState_def)
  have w: "to_wstate SnakeState_of_json (Some (json_of_SnakeState g)) = WS g"
    by (simp add: to_wstate_def SnakeState_json_inverse)
  show ?thesis
    using assms
    by (simp add: MultiSnake_onmessage_def applyStateFromHost_def Let_def m w sc nn draw_well_formed)
qed




section \<open>The crash test of \<open>stepGame\<close>\<close>

lemma anyCrash_dirs [simp]:
  "anyCrash (g\<lparr>dir1 := a, dir2 := b\<rparr>) n1 w1 n2 w2 = anyCrash g n1 w1 n2 w2"
  by (simp add: anyCrash_def)

lemma advance_wall:
  assumes "advance snake d = Some (n, w)"
  shows "snake \<noteq> []"
    and "w \<longleftrightarrow> \<not> (0 \<le> cell_x n \<and> cell_x n < COLS \<and> 0 \<le> cell_y n \<and> cell_y n < ROWS)"
  using assms by (auto simp: advance_def Let_def split: list.splits)

lemma commitMove_bodies:
  assumes "commitMove draws st m1 m2 = Some (st', a)"
  shows "(snake1 st' = m1 # snake1 st \<or> snake1 st' = butlast (m1 # snake1 st))
       \<and> (snake2 st' = m2 # snake2 st \<or> snake2 st' = butlast (m2 # snake2 st))
       \<and> phase st' = phase st"
  using assms by (auto simp: commitMove_def Let_def split: if_splits option.splits)

lemma stepGame_crash:
  assumes "ms_gamePhaseRef s = Playing" and "ms_gameState s = WS g"
    and "as_Direction (ms_dir1Ref s) = Some d1" and "as_Direction (ms_dir2Ref s) = Some d2"
    and "advance (snake1 g) d1 = Some (n1, w1)" and "advance (snake2 g) d2 = Some (n2, w2)"
    and "anyCrash g n1 w1 n2 w2"
  shows "MultiSnake_stepGame draws s
         = (None, ms_send (msg_gameState (json_of_SnakeState
                             (g\<lparr>dir1 := ms_dir1Ref s, dir2 := ms_dir2Ref s, phase := Over\<rparr>)))
                    (s\<lparr>ms_gameState := WS (g\<lparr>dir1 := ms_dir1Ref s, dir2 := ms_dir2Ref s, phase := Over\<rparr>),
                       ms_gamePhaseRef := Over, ms_interval := None\<rparr>))"
  using assms by (simp add: MultiSnake_stepGame_def Let_def stopInterval_def)

lemma stepGame_commit:
  assumes "ms_gamePhaseRef t = Playing" and "ms_gameState t = WS h"
    and "as_Direction (ms_dir1Ref t) = Some e1" and "as_Direction (ms_dir2Ref t) = Some e2"
    and "advance (snake1 h) e1 = Some (m1, v1)" and "advance (snake2 h) e2 = Some (m2, v2)"
    and "\<not> anyCrash h m1 v1 m2 v2"
    and "fst (MultiSnake_stepGame draws t) = None"
  shows "\<exists>h'. ms_gameState (snd (MultiSnake_stepGame draws t)) = WS h'
              \<and> (snake1 h' = m1 # snake1 h \<or> snake1 h' = m1 # butlast (snake1 h))
              \<and> (snake2 h' = m2 # snake2 h \<or> snake2 h' = m2 # butlast (snake2 h))
              \<and> phase h' = phase h"
proof -
  let ?st = "h\<lparr>dir1 := ms_dir1Ref t, dir2 := ms_dir2Ref t\<rparr>"
  have ne: "snake1 h \<noteq> []" "snake2 h \<noteq> []"
    using advance_wall(1)[OF assms(5)] advance_wall(1)[OF assms(6)] by simp_all
  show ?thesis
  proof (cases "commitMove draws ?st m1 m2")
    case None
    then show ?thesis
      using assms by (simp add: MultiSnake_stepGame_def Let_def)
  next
    case (Some r)
    obtain st' a where r: "r = (st', a)" by (cases r)
    have "(snake1 st' = m1 # snake1 h \<or> snake1 st' = m1 # butlast (snake1 h))
        \<and> (snake2 st' = m2 # snake2 h \<or> snake2 st' = m2 # butlast (snake2 h))
        \<and> phase st' = phase h"
      using commitMove_bodies[OF Some[unfolded r]] ne by simp
    then show ?thesis
      using assms Some r by (simp add: MultiSnake_stepGame_def Let_def updateScores_def)
  qed
qed

lemma hits_iff: "hits snake c \<longleftrightarrow> c \<in> set snake"
  by (induction snake) (auto simp: hits_def)

lemma as_Direction_json [simp]: "as_Direction (json_of_Direction d) = Some d"
  by (cases d) simp_all

text \<open>
  What \<open>stepGame\<close> tests, and when. The session is in the playing phase, both pending
  directions are directions, and the heads are \<open>a1\<close> and \<open>a2\<close>; \<open>m1\<close> and \<open>m2\<close> are the cells
  next to the heads in the pending directions. If one of them is off the grid, or on
  either body as it is before the step, or if they are the same cell, the step commits
  no move: bodies, food and scores stay, the phase becomes over in the world state and in
  the phase ref, the interval is cleared, and the state is sent. Otherwise, if the step
  returns, both cells are committed together as the new heads, each body keeping its
  other cells or dropping its last.
\<close>

lemma crash_test_precedes_commit:
  assumes "ms_gamePhaseRef t = Playing" and "ms_gameState t = WS h"
    and "ms_dir1Ref t = json_of_Direction e1" and "ms_dir2Ref t = json_of_Direction e2"
    and "snake1 h = a1 # r1" and "snake2 h = a2 # r2"
    and "m1 = \<lparr>cell_x = cell_x a1 + cell_x (delta e1), cell_y = cell_y a1 + cell_y (delta e1)\<rparr>"
    and "m2 = \<lparr>cell_x = cell_x a2 + cell_x (delta e2), cell_y = cell_y a2 + cell_y (delta e2)\<rparr>"
    and "crash \<longleftrightarrow>
           \<not> (0 \<le> cell_x m1 \<and> cell_x m1 < COLS \<and> 0 \<le> cell_y m1 \<and> cell_y m1 < ROWS)
         \<or> \<not> (0 \<le> cell_x m2 \<and> cell_x m2 < COLS \<and> 0 \<le> cell_y m2 \<and> cell_y m2 < ROWS)
         \<or> m1 \<in> set (snake1 h) \<or> m2 \<in> set (snake2 h) \<or> m1 = m2
         \<or> m1 \<in> set (snake2 h) \<or> m2 \<in> set (snake1 h)"
  shows "crash \<Longrightarrow>
           MultiSnake_stepGame draws t
           = (None, ms_send (msg_gameState (json_of_SnakeState
                               (h\<lparr>dir1 := ms_dir1Ref t, dir2 := ms_dir2Ref t, phase := Over\<rparr>)))
                      (t\<lparr>ms_gameState := WS (h\<lparr>dir1 := ms_dir1Ref t, dir2 := ms_dir2Ref t,
                                                phase := Over\<rparr>),
                         ms_gamePhaseRef := Over, ms_interval := None\<rparr>))"
    and "\<not> crash \<Longrightarrow> fst (MultiSnake_stepGame draws t) = None \<Longrightarrow>
           \<exists>h'. ms_gameState (snd (MultiSnake_stepGame draws t)) = WS h'
              \<and> (snake1 h' = m1 # snake1 h \<or> snake1 h' = m1 # butlast (snake1 h))
              \<and> (snake2 h' = m2 # snake2 h \<or> snake2 h' = m2 # butlast (snake2 h))
              \<and> phase h' = phase h"
proof -
  define w1 where "w1 \<longleftrightarrow> \<not> (0 \<le> cell_x m1 \<and> cell_x m1 < COLS \<and> 0 \<le> cell_y m1 \<and> cell_y m1 < ROWS)"
  define w2 where "w2 \<longleftrightarrow> \<not> (0 \<le> cell_x m2 \<and> cell_x m2 < COLS \<and> 0 \<le> cell_y m2 \<and> cell_y m2 < ROWS)"
  have d: "as_Direction (ms_dir1Ref t) = Some e1" "as_Direction (ms_dir2Ref t) = Some e2"
    using assms(3,4) by simp_all
  have adv: "advance (snake1 h) e1 = Some (m1, w1)" "advance (snake2 h) e2 = Some (m2, w2)"
    using assms(5-8) by (auto simp: advance_def Let_def w1_def w2_def)
  have any: "anyCrash h m1 w1 m2 w2 \<longleftrightarrow> crash"
    unfolding assms(9) anyCrash_def Let_def hits_iff w1_def w2_def
    by (auto intro: Cell.equality)
  show "MultiSnake_stepGame draws t
           = (None, ms_send (msg_gameState (json_of_SnakeState
                               (h\<lparr>dir1 := ms_dir1Ref t, dir2 := ms_dir2Ref t, phase := Over\<rparr>)))
                      (t\<lparr>ms_gameState := WS (h\<lparr>dir1 := ms_dir1Ref t, dir2 := ms_dir2Ref t,
                                                phase := Over\<rparr>),
                         ms_gamePhaseRef := Over, ms_interval := None\<rparr>))" if crash
    using stepGame_crash[OF assms(1,2) d adv, of draws] that any by simp
  show "\<exists>h'. ms_gameState (snd (MultiSnake_stepGame draws t)) = WS h'
              \<and> (snake1 h' = m1 # snake1 h \<or> snake1 h' = m1 # butlast (snake1 h))
              \<and> (snake2 h' = m2 # snake2 h \<or> snake2 h' = m2 # butlast (snake2 h))
              \<and> phase h' = phase h"
    if nc: "\<not> crash" and ret: "fst (MultiSnake_stepGame draws t) = None"
    using stepGame_commit[OF assms(1,2) d adv _ ret] nc any by simp
qed

text \<open>
  C5 at a failing input. The host of the chase game has created the game, the channel
  has opened and the countdown has run out; nobody presses a key. The snakes run toward
  each other along row 8, and after seven steps their heads are on neighbouring cells.
  At the eighth step each proposed head is on the other body: \<open>stepGame\<close> commits no
  move, sets the phase to over in the world state and in \<open>gamePhaseRef\<close>, clears the
  interval and sends the final state. The React state \<open>gamePhase\<close>, which decides what
  is shown, still says playing: \<open>stepGame\<close> does not call \<open>setGamePhase\<close>. The guest
  applies the final snapshot and keeps \<open>gamePhase\<close> and \<open>gamePhaseRef\<close> at playing. The
  same holds on the tick where the two proposed heads coincide (\<open>headOnState\<close>).
\<close>

theorem crash_leaves_phase_playing:
  "ms_gamePhase snakeHostPlaying = Playing \<and> ms_gamePhaseRef snakeHostPlaying = Playing
   \<and> ms_interval snakeHostPlaying = Some INITIAL_INTERVAL
   \<and> ms_gameState (((\<lambda>s. snd (MultiSnake_interval [] s)) ^^ 7) snakeHostPlaying)
       = WS \<lparr>snake1 = [\<lparr>cell_x = 11, cell_y = 8\<rparr>, \<lparr>cell_x = 10, cell_y = 8\<rparr>, \<lparr>cell_x = 9, cell_y = 8\<rparr>],
              snake2 = [\<lparr>cell_x = 12, cell_y = 8\<rparr>, \<lparr>cell_x = 13, cell_y = 8\<rparr>, \<lparr>cell_x = 14, cell_y = 8\<rparr>],
              dir1 = JStr ''right'', dir2 = JStr ''left'', food = \<lparr>cell_x = 12, cell_y = 4\<rparr>,
              ms_score1 = 0, ms_score2 = 0, phase = Lobby\<rparr>
   \<and> ms_gamePhaseRef (((\<lambda>s. snd (MultiSnake_interval [] s)) ^^ 7) snakeHostPlaying) = Playing
   \<and> fst (MultiSnake_interval [] (((\<lambda>s. snd (MultiSnake_interval [] s)) ^^ 7) snakeHostPlaying))
       = None
   \<and> ms_gameState (((\<lambda>s. snd (MultiSnake_interval [] s)) ^^ 8) snakeHostPlaying)
       = WS \<lparr>snake1 = [\<lparr>cell_x = 11, cell_y = 8\<rparr>, \<lparr>cell_x = 10, cell_y = 8\<rparr>, \<lparr>cell_x = 9, cell_y = 8\<rparr>],
              snake2 = [\<lparr>cell_x = 12, cell_y = 8\<rparr>, \<lparr>cell_x = 13, cell_y = 8\<rparr>, \<lparr>cell_x = 14, cell_y = 8\<rparr>],
              dir1 = JStr ''right'', dir2 = JStr ''left'', food = \<lparr>cell_x = 12, cell_y = 4\<rparr>,
              ms_score1 = 0, ms_score2 = 0, phase = Over\<rparr>
   \<and> ms_gamePhaseRef (((\<lambda>s. snd (MultiSnake_interval [] s)) ^^ 8) snakeHostPlaying) = Over
   \<and> ms_interval (((\<lambda>s. snd (MultiSnake_interval [] s)) ^^ 8) snakeHostPlaying) = None
   \<and> ms_gamePhase (((\<lambda>s. snd (MultiSnake_interval [] s)) ^^ 8) snakeHostPlaying) = Playing
   \<and> ms_gamePhase snakeGuestPlaying = Playing \<and> ms_gamePhaseRef snakeGuestPlaying = Playing
   \<and> MultiSnake_onmessage
       (Some (last (ms_sent (((\<lambda>s. snd (MultiSnake_interval [] s)) ^^ 8) snakeHostPlaying))))
       snakeGuestPlaying
       = (None, snakeGuestPlaying
           \<lparr>ms_gameState :=
              WS \<lparr>snake1 = [\<lparr>cell_x = 11, cell_y = 8\<rparr>, \<lparr>cell_x = 10, cell_y = 8\<rparr>, \<lparr>cell_x = 9, cell_y = 8\<rparr>],
                   snake2 = [\<lparr>cell_x = 12, cell_y = 8\<rparr>, \<lparr>cell_x = 13, cell_y = 8\<rparr>, \<lparr>cell_x = 14, cell_y = 8\<rparr>],
                   dir1 = JStr ''right'', dir2 = JStr ''left'', food = \<lparr>cell_x = 12, cell_y = 4\<rparr>,
                   ms_score1 = 0, ms_score2 = 0, phase = Over\<rparr>\<rparr>)
   \<and> MultiSnake_stepGame [] (playingHost headOnState)
       = (None, (playingHost headOnState)
           \<lparr>ms_gameState := WS (headOnState\<lparr>phase := Over\<rparr>), ms_gamePhaseRef := Over,
            ms_interval := None,
            ms_sent := [msg_gameState (json_of_SnakeState (headOnState\<lparr>phase := Over\<rparr>))]\<rparr>)
   \<and> ms_gamePhase (playingHost headOnState) = Playing"
proof -
  let ?g7 = "\<lparr>snake1 = [\<lparr>cell_x = 11, cell_y = 8\<rparr>, \<lparr>cell_x = 10, cell_y = 8\<rparr>, \<lparr>cell_x = 9, cell_y = 8\<rparr>],
              snake2 = [\<lparr>cell_x = 12, cell_y = 8\<rparr>, \<lparr>cell_x = 13, cell_y = 8\<rparr>, \<lparr>cell_x = 14, cell_y = 8\<rparr>],
              dir1 = JStr ''right'', dir2 = JStr ''left'', food = \<lparr>cell_x = 12, cell_y = 4\<rparr>,
              ms_score1 = 0, ms_score2 = 0, phase = Lobby\<rparr>"
  have run: "\<exists>sent. (((\<lambda>s. snd (MultiSnake_interval [] s)) ^^ 7) snakeHostPlaying)
               = snakeHostPlaying\<lparr>ms_gameState := WS ?g7, ms_sent := sent\<rparr>"
    by (simp add: eval_nat_numeral snakeHostPlaying_eq MultiSnake_init_def MultiSnake_interval_def
        MultiSnake_stepGame_def Let_def advance_def anyCrash_def hits_def commitMove_def
        openingState_def startSnake1_def startSnake2_def ms_send_def)
  then obtain sent where s7: "(((\<lambda>s. snd (MultiSnake_interval [] s)) ^^ 7) snakeHostPlaying)
               = snakeHostPlaying\<lparr>ms_gameState := WS ?g7, ms_sent := sent\<rparr>"
    by blast
  have eight: "((\<lambda>s. snd (MultiSnake_interval [] s)) ^^ 8) snakeHostPlaying
      = snd (MultiSnake_interval [] (((\<lambda>s. snd (MultiSnake_interval [] s)) ^^ 7) snakeHostPlaying))"
    by (simp add: eval_nat_numeral)
  have step8: "MultiSnake_interval [] (snakeHostPlaying\<lparr>ms_gameState := WS ?g7, ms_sent := sent\<rparr>)
      = (None, snakeHostPlaying\<lparr>ms_gameState := WS (?g7\<lparr>phase := Over\<rparr>),
                                 ms_sent := sent @ [msg_gameState (json_of_SnakeState (?g7\<lparr>phase := Over\<rparr>))],
                                 ms_gamePhaseRef := Over, ms_interval := None\<rparr>)"
    by (simp add: snakeHostPlaying_eq MultiSnake_init_def MultiSnake_interval_def
        MultiSnake_stepGame_def Let_def advance_def anyCrash_def hits_def
        stopInterval_def ms_send_def)
  have guest: "ms_role snakeGuestPlaying = Guest"
    by (simp add: snakeGuestPlaying_eq)
  have spec: "MultiSnake_stepGame [] (playingHost headOnState)
       = (None, (playingHost headOnState)
           \<lparr>ms_gameState := WS (headOnState\<lparr>phase := Over\<rparr>), ms_gamePhaseRef := Over,
            ms_interval := None,
            ms_sent := [msg_gameState (json_of_SnakeState (headOnState\<lparr>phase := Over\<rparr>))]\<rparr>)"
    by (simp add: playingHost_def MultiSnake_init_def headOnState_def
        MultiSnake_stepGame_def Let_def advance_def anyCrash_def hits_def
        stopInterval_def ms_send_def)
  show ?thesis
    unfolding eight s7 step8
    by (simp add: spec ms_snapshot_step[OF guest])
       (simp add: snakeHostPlaying_eq snakeGuestPlaying_eq playingHost_def MultiSnake_init_def)
qed
section \<open>Scores\<close>

lemma playingStep_paddles [simp]:
  "paddle1Y (playingStep speed r1 r2 g) = paddle1Y g"
  "paddle2Y (playingStep speed r1 r2 g) = paddle2Y g"
  by (simp_all add: playingStep_def scoreLeftExit_def scoreRightExit_def)

lemma playingStep_scores:
  "(score1 (playingStep speed r1 r2 g) = score1 g \<and> score2 (playingStep speed r1 r2 g) = score2 g)
   \<or> (score1 (playingStep speed r1 r2 g) = score1 g \<and> score2 (playingStep speed r1 r2 g) = score2 g + 1
       \<and> ball (playingStep speed r1 r2 g) = resetBall 1 speed r1)
   \<or> (score1 (playingStep speed r1 r2 g) = score1 g + 1 \<and> score2 (playingStep speed r1 r2 g) = score2 g
       \<and> ball (playingStep speed r1 r2 g) = resetBall (- 1) speed r2)"
  by (simp add: playingStep_def scoreLeftExit_def scoreRightExit_def resetBall_def)

lemma updateGame_host:
  assumes "pg_role p = Host" and "pg_gameState p = WS g"
  shows "fst (PongGame_updateGame r1 r2 p) = None"
    and "pg_gameState (snd (PongGame_updateGame r1 r2 p))
         = WS (if pg_gamePhase p = PPlaying
               then playingStep (pg_ballSpeed p) r1 r2 (movePaddle1 (pg_keys p) g)
               else movePaddle1 (pg_keys p) g)"
    and "pg_gamePhase (snd (PongGame_updateGame r1 r2 p)) = pg_gamePhase p"
    and "pg_gameLoop (snd (PongGame_updateGame r1 r2 p))"
  using assms by (simp_all add: PongGame_updateGame_def Let_def)

lemma pong_scores_step:
  assumes "pg_role p = Host" and "pg_gameState p = WS g"
  shows "\<exists>g'. pg_gameState (snd (PongGame_updateGame r1 r2 p)) = WS g'
           \<and> score1 g \<le> score1 g' \<and> score2 g \<le> score2 g'
           \<and> ((score1 g' = score1 g \<and> score2 g' = score2 g)
              \<or> (score1 g' + score2 g' = score1 g + score2 g + 1
                  \<and> ball_x (ball g') = CANVAS_WIDTH / 2 \<and> ball_y (ball g') = CANVAS_HEIGHT / 2))
           \<and> paddle2Y g' = paddle2Y g \<and> paddle1Y g' = paddle1Y (movePaddle1 (pg_keys p) g)"
proof (cases "pg_gamePhase p = PPlaying")
  case True
  let ?m = "movePaddle1 (pg_keys p) g"
  show ?thesis
    using playingStep_scores[of "pg_ballSpeed p" r1 r2 ?m]
    by (auto simp: updateGame_host(2)[OF assms] True resetBall_def)
next
  case False
  then show ?thesis by (simp add: updateGame_host(2)[OF assms])
qed

lemma placeFood_free:
  "placeFood a b draws = Some f \<Longrightarrow> f \<notin> set (a @ b) \<and> f \<in> randomCell ` set draws"
  by (induction draws) (auto split: if_splits)

lemma commitMove_scores:
  assumes "commitMove draws st m1 m2 = Some (st', a)"
  shows "phase st' = phase st \<and> ms_score1 st \<le> ms_score1 st' \<and> ms_score2 st \<le> ms_score2 st'
       \<and> length (snake1 st) \<le> length (snake1 st') \<and> length (snake2 st) \<le> length (snake2 st')
       \<and> ((\<not> a \<and> ms_score1 st' = ms_score1 st \<and> ms_score2 st' = ms_score2 st \<and> food st' = food st)
          \<or> (a \<and> ms_score1 st + ms_score2 st + 1 \<le> ms_score1 st' + ms_score2 st'
              \<and> food st' \<notin> set (snake1 st' @ snake2 st')))"
  using assms
  by (auto simp: commitMove_def Let_def split: if_splits option.splits dest!: placeFood_free)


lemma snake_scores_step:
  assumes "ms_gameState s = WS h"
  shows "\<exists>h'. ms_gameState (snd (MultiSnake_stepGame draws s)) = WS h'
           \<and> ms_score1 h \<le> ms_score1 h' \<and> ms_score2 h \<le> ms_score2 h'
           \<and> ((ms_score1 h' = ms_score1 h \<and> ms_score2 h' = ms_score2 h \<and> food h' = food h)
              \<or> (ms_score1 h + ms_score2 h + 1 \<le> ms_score1 h' + ms_score2 h'
                  \<and> food h' \<notin> set (snake1 h' @ snake2 h')
                  \<and> phase h' = phase h
                  \<and> ms_gamePhaseRef (snd (MultiSnake_stepGame draws s)) = ms_gamePhaseRef s
                  \<and> ms_interval (snd (MultiSnake_stepGame draws s)) = ms_interval s
                  \<and> length (snake1 h) \<le> length (snake1 h')
                  \<and> length (snake2 h) \<le> length (snake2 h')))"
proof -
  let ?st = "h\<lparr>dir1 := ms_dir1Ref s, dir2 := ms_dir2Ref s\<rparr>"
  have st: "ms_score1 ?st = ms_score1 h" "ms_score2 ?st = ms_score2 h" "food ?st = food h"
    "phase ?st = phase h" "snake1 ?st = snake1 h" "snake2 ?st = snake2 h"
    by simp_all
  show ?thesis
    using assms
    by (auto simp: MultiSnake_stepGame_def Let_def stopInterval_def updateScores_def
        split: option.splits prod.splits dest!: commitMove_scores simp del: set_append)
qed


text \<open>
  C6. One simulation step of the host never lowers a score, in either game. In the paddle
  game a step either leaves both scores, or raises exactly one of them by one and puts the
  ball back at the centre of the canvas; the scoring does not touch the paddles, the
  phase stays what it was and the next frame is requested. In the chase game a step
  either leaves scores and food as they are, or it raises the scores, puts the food on a
  free cell, and the game goes on: the phase and the step interval are unchanged and no
  snake is reset or shortened.
\<close>

theorem scores_never_decrease:
  assumes "pg_role p = Host" and "pg_gameState p = WS g" and "ms_gameState s = WS h"
  shows "fst (PongGame_updateGame r1 r2 p) = None
       \<and> pg_gamePhase (snd (PongGame_updateGame r1 r2 p)) = pg_gamePhase p
       \<and> pg_gameLoop (snd (PongGame_updateGame r1 r2 p))
       \<and> (\<exists>g'. pg_gameState (snd (PongGame_updateGame r1 r2 p)) = WS g'
             \<and> score1 g \<le> score1 g' \<and> score2 g \<le> score2 g'
             \<and> ((score1 g' = score1 g \<and> score2 g' = score2 g)
                \<or> (score1 g' + score2 g' = score1 g + score2 g + 1
                    \<and> ball_x (ball g') = CANVAS_WIDTH / 2 \<and> ball_y (ball g') = CANVAS_HEIGHT / 2))
             \<and> paddle2Y g' = paddle2Y g \<and> paddle1Y g' = paddle1Y (movePaddle1 (pg_keys p) g))
       \<and> (\<exists>h'. ms_gameState (snd (MultiSnake_stepGame draws s)) = WS h'
             \<and> ms_score1 h \<le> ms_score1 h' \<and> ms_score2 h \<le> ms_score2 h'
             \<and> ((ms_score1 h' = ms_score1 h \<and> ms_score2 h' = ms_score2 h \<and> food h' = food h)
                \<or> (ms_score1 h + ms_score2 h + 1 \<le> ms_score1 h' + ms_score2 h'
                    \<and> food h' \<notin> set (snake1 h' @ snake2 h')
                    \<and> phase h' = phase h
                    \<and> ms_gamePhaseRef (snd (MultiSnake_stepGame draws s)) = ms_gamePhaseRef s
                    \<and> ms_interval (snd (MultiSnake_stepGame draws s)) = ms_interval s
                    \<and> length (snake1 h) \<le> length (snake1 h')
                    \<and> length (snake2 h) \<le> length (snake2 h'))))"
  using updateGame_host(1,3,4)[OF assms(1,2), of r1 r2] pong_scores_step[OF assms(1,2), of r1 r2]
    snake_scores_step[OF assms(3), of draws]
  by simp

text \<open>
  The scenario of the specification: the ball passes the right edge, the left side's
  score goes from 0 to 1 and the ball restarts at the centre, moving left. In the chase
  game snake 1 eats: its score goes from 0 to 1, it grows to four cells, the food moves.
\<close>

theorem scores_never_decrease_witness:
  "pg_role (playingPongHost rightEdgeState) = Host
   \<and> pg_gameState (playingPongHost rightEdgeState) = WS rightEdgeState
   \<and> ms_gameState (playingHost feedingState) = WS feedingState
   \<and> pg_gameState (snd (PongGame_updateGame 0 0 (playingPongHost rightEdgeState)))
       = WS (rightEdgeState\<lparr>score1 := 1,
               ball := \<lparr>ball_x = 400, ball_y = 280, ball_vx = - 5, ball_vy = - (5 / 2)\<rparr>\<rparr>)
   \<and> ms_gameState (snd (MultiSnake_stepGame [(1 / 2, 1 / 4)] (playingHost feedingState)))
       = WS (feedingState\<lparr>ms_score1 := 1, food := \<lparr>cell_x = 12, cell_y = 4\<rparr>,
               snake1 := \<lparr>cell_x = 5, cell_y = 8\<rparr> # startSnake1,
               snake2 := [\<lparr>cell_x = 18, cell_y = 8\<rparr>, \<lparr>cell_x = 19, cell_y = 8\<rparr>,
                          \<lparr>cell_x = 20, cell_y = 8\<rparr>]\<rparr>)"
proof -
  have a: "pg_role (playingPongHost rightEdgeState) = Host"
    "pg_gameState (playingPongHost rightEdgeState) = WS rightEdgeState"
    by (simp_all add: playingPongHost_def PongGame_init_def)
  have b: "ms_gameState (playingHost feedingState) = WS feedingState"
    by (simp add: playingHost_def MultiSnake_init_def)
  have c: "pg_gameState (snd (PongGame_updateGame 0 0 (playingPongHost rightEdgeState)))
       = WS (rightEdgeState\<lparr>score1 := 1,
               ball := \<lparr>ball_x = 400, ball_y = 280, ball_vx = - 5, ball_vy = - (5 / 2)\<rparr>\<rparr>)"
    by (simp add: PongGame_updateGame_def playingPongHost_def PongGame_init_def Let_def
        movePaddle1_def playingStep_def moveBall_def bounceWalls_def bouncePaddle1_def
        bouncePaddle2_def scoreLeftExit_def scoreRightExit_def resetBall_def rightEdgeState_def
        initialGameState_def)
  have f: "\<lfloor>(1::real) / 2 * 24\<rfloor> = 12" "\<lfloor>(1::real) / 4 * 16\<rfloor> = 4" by simp_all
  have d: "ms_gameState (snd (MultiSnake_stepGame [(1 / 2, 1 / 4)] (playingHost feedingState)))
       = WS (feedingState\<lparr>ms_score1 := 1, food := \<lparr>cell_x = 12, cell_y = 4\<rparr>,
               snake1 := \<lparr>cell_x = 5, cell_y = 8\<rparr> # startSnake1,
               snake2 := [\<lparr>cell_x = 18, cell_y = 8\<rparr>, \<lparr>cell_x = 19, cell_y = 8\<rparr>,
                          \<lparr>cell_x = 20, cell_y = 8\<rparr>]\<rparr>)"
    by (simp add: MultiSnake_stepGame_def playingHost_def MultiSnake_init_def Let_def
        feedingState_def openingState_def startSnake1_def startSnake2_def advance_def
        anyCrash_def hits_def commitMove_def randomCell_def f updateScores_def ms_send_def)
  show ?thesis
    using a b c d scores_never_decrease[OF a b, where ?r1.0=0 and ?r2.0=0 and draws="[(1 / 2, 1 / 4)]"]
    by simp
qed

section \<open>Positions after a step\<close>

lemma movePaddle1_bounds:
  assumes "0 \<le> paddle1Y g" and "paddle1Y g \<le> CANVAS_HEIGHT - PADDLE_HEIGHT"
  shows "0 \<le> paddle1Y (movePaddle1 keys g) \<and> paddle1Y (movePaddle1 keys g) \<le> CANVAS_HEIGHT - PADDLE_HEIGHT"
  using assms by (auto simp: movePaddle1_def Let_def)

lemma playingStep_ball_x:
  "0 \<le> ball_x (ball (playingStep speed r1 r2 g)) \<and> ball_x (ball (playingStep speed r1 r2 g)) \<le> CANVAS_WIDTH"
  by (simp add: playingStep_def scoreLeftExit_def scoreRightExit_def resetBall_def)

lemma playingStep_ball_y:
  "ball_y (ball (playingStep speed r1 r2 g)) = ball_y (ball g) + ball_vy (ball g)
   \<or> ball_y (ball (playingStep speed r1 r2 g)) = CANVAS_HEIGHT / 2"
  by (simp add: playingStep_def scoreLeftExit_def scoreRightExit_def resetBall_def
      bouncePaddle1_def bouncePaddle2_def bounceWalls_def moveBall_def)

lemma pong_step_legal:
  assumes "pg_role p = Host" and "pg_gameState p = WS g"
    and "0 \<le> paddle1Y g" and "paddle1Y g \<le> CANVAS_HEIGHT - PADDLE_HEIGHT"
    and "0 \<le> paddle2Y g" and "paddle2Y g \<le> CANVAS_HEIGHT - PADDLE_HEIGHT"
    and "0 \<le> score1 g" and "0 \<le> score2 g"
    and "0 \<le> ball_x (ball g)" and "ball_x (ball g) \<le> CANVAS_WIDTH"
    and "0 \<le> ball_y (ball g)" and "ball_y (ball g) \<le> CANVAS_HEIGHT"
  shows "\<exists>g'. pg_gameState (snd (PongGame_updateGame r1 r2 p)) = WS g'
           \<and> 0 \<le> paddle1Y g' \<and> paddle1Y g' \<le> CANVAS_HEIGHT - PADDLE_HEIGHT
           \<and> 0 \<le> paddle2Y g' \<and> paddle2Y g' \<le> CANVAS_HEIGHT - PADDLE_HEIGHT
           \<and> 0 \<le> score1 g' \<and> 0 \<le> score2 g'
           \<and> 0 \<le> ball_x (ball g') \<and> ball_x (ball g') \<le> CANVAS_WIDTH
           \<and> (ball_y (ball g') = ball_y (ball g)
              \<or> ball_y (ball g') = ball_y (ball g) + ball_vy (ball g)
              \<or> ball_y (ball g') = CANVAS_HEIGHT / 2)
           \<and> min 0 (ball_y (ball g) + ball_vy (ball g)) \<le> ball_y (ball g')
           \<and> ball_y (ball g') \<le> max CANVAS_HEIGHT (ball_y (ball g) + ball_vy (ball g))"
proof -
  let ?m = "movePaddle1 (pg_keys p) g"
  obtain g' where g': "pg_gameState (snd (PongGame_updateGame r1 r2 p)) = WS g'"
    and sc: "score1 g \<le> score1 g'" "score2 g \<le> score2 g'"
    and pd: "paddle2Y g' = paddle2Y g" "paddle1Y g' = paddle1Y ?m"
    using pong_scores_step[OF assms(1,2), of r1 r2] by blast
  have eq: "g' = (if pg_gamePhase p = PPlaying
               then playingStep (pg_ballSpeed p) r1 r2 ?m else ?m)"
    using g' updateGame_host(2)[OF assms(1,2), of r1 r2] by simp
  have bx: "0 \<le> ball_x (ball g') \<and> ball_x (ball g') \<le> CANVAS_WIDTH"
    using playingStep_ball_x[of "pg_ballSpeed p" r1 r2 ?m] assms(9,10) by (simp add: eq)
  have by1: "ball_y (ball g') = ball_y (ball g)
              \<or> ball_y (ball g') = ball_y (ball g) + ball_vy (ball g)
              \<or> ball_y (ball g') = CANVAS_HEIGHT / 2"
    using playingStep_ball_y[of "pg_ballSpeed p" r1 r2 ?m] by (auto simp: eq)
  have by2: "min 0 (ball_y (ball g) + ball_vy (ball g)) \<le> ball_y (ball g')
           \<and> ball_y (ball g') \<le> max CANVAS_HEIGHT (ball_y (ball g) + ball_vy (ball g))"
    using by1 assms(11,12) by auto
  show ?thesis
    using g' sc pd bx by1 by2 movePaddle1_bounds[OF assms(3,4), of "pg_keys p"] assms(5-8)
    by simp
qed

lemma randomCell_inField:
  assumes "0 \<le> fst d \<and> fst d < 1 \<and> 0 \<le> snd d \<and> snd d < 1"
  shows "inField (randomCell d)"
proof -
  have "0 \<le> fst d * 24" "fst d * 24 < 24" "0 \<le> snd d * 16" "snd d * 16 < 16"
    using assms by simp_all
  then have "0 \<le> \<lfloor>fst d * 24\<rfloor>" "\<lfloor>fst d * 24\<rfloor> < 24" "0 \<le> \<lfloor>snd d * 16\<rfloor>" "\<lfloor>snd d * 16\<rfloor> < 16"
    by (simp_all add: floor_less_iff)
  then show ?thesis
    by (simp add: inField_def randomCell_def)
qed

lemma placeFood_inField:
  assumes "placeFood a b draws = Some f"
    and "list_all (\<lambda>d. 0 \<le> fst d \<and> fst d < 1 \<and> 0 \<le> snd d \<and> snd d < 1) draws"
  shows "inField f"
proof -
  from placeFood_free[OF assms(1)] obtain d where "d \<in> set draws" "f = randomCell d" by auto
  then show ?thesis using assms(2) randomCell_inField by (auto simp: list_all_iff)
qed

lemma list_all_butlast: "list_all P xs \<Longrightarrow> list_all P (butlast xs)"
  by (auto simp: list_all_iff dest: in_set_butlastD)

lemma commitMove_inField:
  assumes "commitMove draws st m1 m2 = Some (st', a)"
    and "list_all inField (snake1 st)" and "list_all inField (snake2 st)"
    and "inField m1" and "inField m2" and "inField (food st)"
    and "list_all (\<lambda>d. 0 \<le> fst d \<and> fst d < 1 \<and> 0 \<le> snd d \<and> snd d < 1) draws"
  shows "list_all inField (snake1 st') \<and> list_all inField (snake2 st') \<and> inField (food st')"
proof -
  have c: "list_all inField (m1 # snake1 st)" "list_all inField (m2 # snake2 st)"
    using assms(2-5) by simp_all
  note b = list_all_butlast[OF c(1)] list_all_butlast[OF c(2)]
  show ?thesis
    using assms(1,6) c b
    by (auto simp: commitMove_def Let_def split: if_splits option.splits
        dest: placeFood_inField[OF _ assms(7)] simp del: butlast.simps)
qed


lemma advance_inField:
  assumes "advance snake d = Some (n, w)" and "\<not> w"
  shows "inField n"
  using advance_wall(2)[OF assms(1)] assms(2) by (simp add: inField_def)

lemma snake_step_fields:
  assumes ws: "ms_gameState s = WS h"
    and dirs: "ms_dir1Ref s = json_of_Direction e1" "ms_dir2Ref s = json_of_Direction e2"
    and legal: "list_all inField (snake1 h)" "list_all inField (snake2 h)" "inField (food h)"
    and rnd: "list_all (\<lambda>d. 0 \<le> fst d \<and> fst d < 1 \<and> 0 \<le> snd d \<and> snd d < 1) draws"
    and after: "ms_gameState (snd (MultiSnake_stepGame draws s)) = WS h'"
  shows "list_all inField (snake1 h') \<and> list_all inField (snake2 h') \<and> inField (food h')"
proof -
  let ?st = "h\<lparr>dir1 := ms_dir1Ref s, dir2 := ms_dir2Ref s\<rparr>"
  have st: "list_all inField (snake1 ?st)" "list_all inField (snake2 ?st)" "inField (food ?st)"
    using legal by simp_all
  have d: "as_Direction (ms_dir1Ref s) = Some e1" "as_Direction (ms_dir2Ref s) = Some e2"
    using dirs by simp_all
  have keep: "list_all inField (snake1 x) \<and> list_all inField (snake2 x) \<and> inField (food x)"
    if "x = h \<or> x = ?st \<or> x = ?st\<lparr>phase := Over\<rparr>" for x
    using that legal by auto
  show ?thesis
  proof (cases "\<exists>n1 w1 n2 w2 r. ms_gamePhaseRef s = Playing
        \<and> advance (snake1 h) e1 = Some (n1, w1) \<and> advance (snake2 h) e2 = Some (n2, w2)
        \<and> \<not> anyCrash h n1 w1 n2 w2 \<and> commitMove draws ?st n1 n2 = Some r")
    case True
    then obtain n1 w1 n2 w2 st' a where t: "ms_gamePhaseRef s = Playing"
      "advance (snake1 h) e1 = Some (n1, w1)" "advance (snake2 h) e2 = Some (n2, w2)"
      "\<not> anyCrash h n1 w1 n2 w2" "commitMove draws ?st n1 n2 = Some (st', a)"
      by (metis surj_pair)
    have w: "\<not> w1" "\<not> w2" using t(4) by (auto simp: anyCrash_def)
    have "h' = st'"
      using ws after t d
      by (auto simp: MultiSnake_stepGame_def Let_def updateScores_def split: if_splits)
    then show ?thesis
      using commitMove_inField[OF t(5) st(1,2) advance_inField[OF t(2) w(1)]
          advance_inField[OF t(3) w(2)] st(3) rnd] by simp
  next
    case False
    then have "h' = h \<or> h' = ?st \<or> h' = ?st\<lparr>phase := Over\<rparr>"
      using ws after d
      by (auto simp: MultiSnake_stepGame_def Let_def stopInterval_def
          split: option.splits prod.splits if_splits)
    then show ?thesis by (rule keep)
  qed
qed


text \<open>
  C7, as amended. Take a legal world state: paddles inside the playfield, ball inside
  the canvas, every snake cell and the food on the grid, no score negative, and in the
  chase game both pending directions being directions (with no control input queued
  they are the directions of the world state). One step of the host, whatever
  keys are down, leaves the paddles inside the playfield, every snake cell and the food
  on the grid (the food given that \<open>Math.random()\<close> returns values in \<open>[0, 1)\<close>), the
  scores non-negative, and the ball's horizontal position inside the canvas. The ball's
  vertical position is not confined by the step: afterwards it is what it was, or that
  plus the vertical velocity, or the centre of the canvas, so it is inside the canvas
  or off it by no more than the old position plus the velocity is.
\<close>

theorem step_keeps_state_legal:
  assumes "pg_role p = Host" and "pg_gameState p = WS g"
    and "0 \<le> paddle1Y g" and "paddle1Y g \<le> CANVAS_HEIGHT - PADDLE_HEIGHT"
    and "0 \<le> paddle2Y g" and "paddle2Y g \<le> CANVAS_HEIGHT - PADDLE_HEIGHT"
    and "0 \<le> score1 g" and "0 \<le> score2 g"
    and "0 \<le> ball_x (ball g)" and "ball_x (ball g) \<le> CANVAS_WIDTH"
    and "0 \<le> ball_y (ball g)" and "ball_y (ball g) \<le> CANVAS_HEIGHT"
    and "ms_gameState s = WS h"
    and "ms_dir1Ref s = json_of_Direction d1" and "ms_dir2Ref s = json_of_Direction d2"
    and "list_all inField (snake1 h)" and "list_all inField (snake2 h)" and "inField (food h)"
    and "0 \<le> ms_score1 h" and "0 \<le> ms_score2 h"
    and "list_all (\<lambda>d. 0 \<le> fst d \<and> fst d < 1 \<and> 0 \<le> snd d \<and> snd d < 1) draws"
  shows "(\<exists>g'. pg_gameState (snd (PongGame_updateGame r1 r2 p)) = WS g'
           \<and> 0 \<le> paddle1Y g' \<and> paddle1Y g' \<le> CANVAS_HEIGHT - PADDLE_HEIGHT
           \<and> 0 \<le> paddle2Y g' \<and> paddle2Y g' \<le> CANVAS_HEIGHT - PADDLE_HEIGHT
           \<and> 0 \<le> score1 g' \<and> 0 \<le> score2 g'
           \<and> 0 \<le> ball_x (ball g') \<and> ball_x (ball g') \<le> CANVAS_WIDTH
           \<and> (ball_y (ball g') = ball_y (ball g)
              \<or> ball_y (ball g') = ball_y (ball g) + ball_vy (ball g)
              \<or> ball_y (ball g') = CANVAS_HEIGHT / 2)
           \<and> min 0 (ball_y (ball g) + ball_vy (ball g)) \<le> ball_y (ball g')
           \<and> ball_y (ball g') \<le> max CANVAS_HEIGHT (ball_y (ball g) + ball_vy (ball g)))
       \<and> (\<exists>h'. ms_gameState (snd (MultiSnake_stepGame draws s)) = WS h'
           \<and> list_all inField (snake1 h') \<and> list_all inField (snake2 h') \<and> inField (food h')
           \<and> 0 \<le> ms_score1 h' \<and> 0 \<le> ms_score2 h')"
proof -
  obtain h' where h': "ms_gameState (snd (MultiSnake_stepGame draws s)) = WS h'"
    and sc: "ms_score1 h \<le> ms_score1 h'" "ms_score2 h \<le> ms_score2 h'"
    using snake_scores_step[OF assms(13), of draws] by blast
  have "list_all inField (snake1 h') \<and> list_all inField (snake2 h') \<and> inField (food h')"
    using snake_step_fields[OF assms(13-18,21) h'] .
  then have "\<exists>h'. ms_gameState (snd (MultiSnake_stepGame draws s)) = WS h'
           \<and> list_all inField (snake1 h') \<and> list_all inField (snake2 h') \<and> inField (food h')
           \<and> 0 \<le> ms_score1 h' \<and> 0 \<le> ms_score2 h'"
    using h' sc assms(19,20) by auto
  then show ?thesis
    using pong_step_legal[OF assms(1-12), of r1 r2] by blast
qed

text \<open>
  The host of the paddle game with the ball two pixels left of the right edge: the step
  scores and resets the ball. The host of the chase game with the food in front of
  snake 1: the step grows the snake and places new food.
\<close>

theorem step_keeps_state_legal_witness:
  "pg_role (playingPongHost rightEdgeState) = Host
   \<and> pg_gameState (playingPongHost rightEdgeState) = WS rightEdgeState
   \<and> 0 \<le> paddle1Y rightEdgeState \<and> paddle1Y rightEdgeState \<le> CANVAS_HEIGHT - PADDLE_HEIGHT
   \<and> 0 \<le> paddle2Y rightEdgeState \<and> paddle2Y rightEdgeState \<le> CANVAS_HEIGHT - PADDLE_HEIGHT
   \<and> 0 \<le> score1 rightEdgeState \<and> 0 \<le> score2 rightEdgeState
   \<and> 0 \<le> ball_x (ball rightEdgeState) \<and> ball_x (ball rightEdgeState) \<le> CANVAS_WIDTH
   \<and> 0 \<le> ball_y (ball rightEdgeState) \<and> ball_y (ball rightEdgeState) \<le> CANVAS_HEIGHT
   \<and> ms_gameState (playingHost feedingState) = WS feedingState
   \<and> ms_dir1Ref (playingHost feedingState) = json_of_Direction Right
   \<and> ms_dir2Ref (playingHost feedingState) = json_of_Direction Left
   \<and> list_all inField (snake1 feedingState) \<and> list_all inField (snake2 feedingState)
   \<and> inField (food feedingState) \<and> 0 \<le> ms_score1 feedingState \<and> 0 \<le> ms_score2 feedingState
   \<and> list_all (\<lambda>d. 0 \<le> fst d \<and> fst d < 1 \<and> 0 \<le> snd d \<and> snd d < 1) [(1 / 2 :: real, 1 / 4 :: real)]
   \<and> (\<exists>g'. pg_gameState (snd (PongGame_updateGame 0 0 (playingPongHost rightEdgeState))) = WS g'
         \<and> 0 \<le> paddle1Y g' \<and> paddle1Y g' \<le> CANVAS_HEIGHT - PADDLE_HEIGHT
         \<and> 0 \<le> score1 g' \<and> 0 \<le> score2 g'
         \<and> 0 \<le> ball_x (ball g') \<and> ball_x (ball g') \<le> CANVAS_WIDTH
         \<and> 0 \<le> ball_y (ball g') \<and> ball_y (ball g') \<le> CANVAS_HEIGHT)
   \<and> (\<exists>h'. ms_gameState (snd (MultiSnake_stepGame [(1 / 2, 1 / 4)] (playingHost feedingState))) = WS h'
         \<and> list_all inField (snake1 h') \<and> list_all inField (snake2 h') \<and> inField (food h'))"
proof -
  have a: "pg_role (playingPongHost rightEdgeState) = Host"
    "pg_gameState (playingPongHost rightEdgeState) = WS rightEdgeState"
    "0 \<le> paddle1Y rightEdgeState" "paddle1Y rightEdgeState \<le> CANVAS_HEIGHT - PADDLE_HEIGHT"
    "0 \<le> paddle2Y rightEdgeState" "paddle2Y rightEdgeState \<le> CANVAS_HEIGHT - PADDLE_HEIGHT"
    "0 \<le> score1 rightEdgeState" "0 \<le> score2 rightEdgeState"
    "0 \<le> ball_x (ball rightEdgeState)" "ball_x (ball rightEdgeState) \<le> CANVAS_WIDTH"
    "0 \<le> ball_y (ball rightEdgeState)" "ball_y (ball rightEdgeState) \<le> CANVAS_HEIGHT"
    by (simp_all add: playingPongHost_def PongGame_init_def rightEdgeState_def initialGameState_def)
  have b: "ms_gameState (playingHost feedingState) = WS feedingState"
    "ms_dir1Ref (playingHost feedingState) = json_of_Direction Right"
    "ms_dir2Ref (playingHost feedingState) = json_of_Direction Left"
    "list_all inField (snake1 feedingState)" "list_all inField (snake2 feedingState)"
    "inField (food feedingState)" "0 \<le> ms_score1 feedingState" "0 \<le> ms_score2 feedingState"
    "list_all (\<lambda>d. 0 \<le> fst d \<and> fst d < 1 \<and> 0 \<le> snd d \<and> snd d < 1) [(1 / 2 :: real, 1 / 4 :: real)]"
    by (simp_all add: playingHost_def MultiSnake_init_def feedingState_def openingState_def
        startSnake1_def startSnake2_def inField_def)
  have y: "ball_y (ball rightEdgeState) + ball_vy (ball rightEdgeState) = 565 / 2"
    by (simp add: rightEdgeState_def)
  show ?thesis
    using a b step_keeps_state_legal[OF a b, of 0 0]
    by (auto simp: y)
qed

text \<open>
  The ball is one pixel below the top edge of the canvas and moves up by two and a half:
  the state is legal, and after one step of the host the ball is above the canvas. The
  step reverses the vertical velocity and does not move the ball back.
\<close>

theorem step_keeps_state_legal_counterexample:
  "pg_role (playingPongHost topEdgeState) = Host
   \<and> pg_gamePhase (playingPongHost topEdgeState) = PPlaying
   \<and> pg_gameState (playingPongHost topEdgeState) = WS topEdgeState
   \<and> 0 \<le> paddle1Y topEdgeState \<and> paddle1Y topEdgeState \<le> CANVAS_HEIGHT - PADDLE_HEIGHT
   \<and> 0 \<le> paddle2Y topEdgeState \<and> paddle2Y topEdgeState \<le> CANVAS_HEIGHT - PADDLE_HEIGHT
   \<and> 0 \<le> score1 topEdgeState \<and> 0 \<le> score2 topEdgeState
   \<and> 0 \<le> ball_x (ball topEdgeState) \<and> ball_x (ball topEdgeState) \<le> CANVAS_WIDTH
   \<and> 0 \<le> ball_y (ball topEdgeState) \<and> ball_y (ball topEdgeState) \<le> CANVAS_HEIGHT
   \<and> PongGame_updateGame 0 0 (playingPongHost topEdgeState)
       = (None, (playingPongHost topEdgeState)
                  \<lparr>pg_gameState := WS (topEdgeState
                       \<lparr>ball := \<lparr>ball_x = 405, ball_y = - (3 / 2), ball_vx = 5, ball_vy = 5 / 2\<rparr>\<rparr>),
                    pg_sent := [msg_gameState (json_of_GameState (topEdgeState
                       \<lparr>ball := \<lparr>ball_x = 405, ball_y = - (3 / 2), ball_vx = 5, ball_vy = 5 / 2\<rparr>\<rparr>))]\<rparr>)"
  by (simp add: PongGame_updateGame_def playingPongHost_def PongGame_init_def Let_def
      movePaddle1_def playingStep_def moveBall_def bounceWalls_def bouncePaddle1_def
      bouncePaddle2_def scoreLeftExit_def scoreRightExit_def topEdgeState_def
      initialGameState_def syncScores_def pg_send_def)

text \<open>
  The same from the start of a session, by events alone: the host creates the game, the
  channel opens, the countdown runs out, fifteen control inputs move paddle 2 down, a
  \<open>settings\<close> message sets the ball speed to 320, and two frames follow. The ball bounces
  off paddle 2 in the first frame and is forty pixels below the canvas after the second.
\<close>

lemma ball_leaves_canvas_in_play:
  "pg_gameState
     (snd (PongGame_frame 0 0
       (snd (PongGame_frame 0 0
         (PongGame_receive (replicate 15 (Some (msg_input ''down'')) @ [Some (msg_settings 320)])
           ((PongGame_timeout ^^ 3) (PongGame_onopen (PongGame_createGame PongGame_init))))))))
   = WS \<lparr>ball = \<lparr>ball_x = 392, ball_y = 600, ball_vx = - 320, ball_vy = - 160\<rparr>,
          paddle1Y = 236, paddle2Y = 356, score1 = 0, score2 = 0\<rparr>"
proof -
  have p1: "(PongGame_timeout ^^ 3) (PongGame_onopen (PongGame_createGame PongGame_init))
      = (playingPongHost (initialGameState 5))
          \<lparr>pg_sent := [msg_settings 5, msg_countdown 3, msg_countdown 2, msg_countdown 1,
                       msg_countdown 0, msg_playing]\<rparr>"
    by (simp add: numeral_3_eq_3 PongGame_timeout_def PongGame_onopen_def PongGame_createGame_def
        PongGame_init_def PongGame_startCountdown_def PongGame_tick_def setConnected_def
        pg_channel_send_def pg_send_def Let_def playingPongHost_def)
  show ?thesis
    unfolding p1
    by (simp add: PongGame_receive_def PongGame_onmessage_def msg_input_def msg_settings_def
        setBallSpeed_def sign_or_1_def pg_send_def Let_def playingPongHost_def PongGame_init_def
        initialGameState_def PongGame_frame_def PongGame_updateGame_def movePaddle1_def
        playingStep_def moveBall_def bounceWalls_def bouncePaddle1_def bouncePaddle2_def
        scoreLeftExit_def scoreRightExit_def syncScores_def eval_nat_numeral)
qed

text \<open>
  A pending direction that is no direction can only come from a control input: the host
  stores the \<open>direction\<close> of an \<open>input\<close> message as it comes. When it names a property that
  every object inherits, \<open>delta[dir].x\<close> is \<open>undefined\<close> and the head that \<open>stepGame\<close> computes
  has no coordinates that a real could hold; the step is then outside the model.
\<close>

lemma inherited_direction_unmodelled:
  "MultiSnake_onmessage (Some (msg_input ''constructor'')) snakeHostPlaying
     = (None, snakeHostPlaying\<lparr>ms_dir2Ref := JStr ''constructor''\<rparr>)
   \<and> fst (MultiSnake_interval [] (snakeHostPlaying\<lparr>ms_dir2Ref := JStr ''constructor''\<rparr>))
     = Some Unmodelled"
  by (simp add: snakeHostPlaying_eq MultiSnake_onmessage_def msg_input_def Let_def
      MultiSnake_init_def opposite_of_def MultiSnake_interval_def MultiSnake_stepGame_def
      advance_throws_def inherited_names_def openingState_def startSnake1_def startSnake2_def)
section \<open>Unknown and malformed messages\<close>

lemma typed_not_null: "member v ''type'' = Some t \<Longrightarrow> v \<noteq> JNull"
  by auto

lemma num_member_None:
  "num_member v k = None \<Longrightarrow> (case member v k of Some (JNum x) \<Rightarrow> a x | _ \<Rightarrow> b) = b"
  by (auto simp: num_member_def split: option.splits json.splits)

text \<open>
  C8, as amended. The handlers drop a message, returning without raising and leaving the
  session as it was, in each of these cases: its \<open>type\<close> is none of the tags the handler
  knows (six tags in the paddle game; \<open>gameState\<close>, \<open>input\<close> and \<open>phase\<close> in the chase game,
  where \<open>settings\<close> and the face tags are unknown); it is a \<open>gameState\<close> message and the
  session is not a guest, or an \<open>input\<close> message and the session is not a host; it is an
  \<open>input\<close> message whose \<open>direction\<close> is neither \<open>up\<close> nor \<open>down\<close> (paddle game, the world state
  being of the \<open>GameState\<close> shape) or is missing, \<open>null\<close>, empty, zero or false (chase game);
  it is a \<open>phase\<close> message whose \<open>phase\<close> is neither \<open>countdown\<close> nor \<open>playing\<close>; it is a
  \<open>settings\<close> message whose \<open>ballSpeed\<close> is not a number. A message that does not parse, or
  that parses to \<open>null\<close>, makes the handler raise (there is no \<open>try\<close> around \<open>JSON.parse\<close> or
  around the dispatch); the session is unchanged then too.
\<close>

theorem unknown_message_dropped:
  assumes "message \<noteq> JNull"
    and "\<forall>t \<in> set [''gameState'', ''input'', ''hostFace'', ''guestFace'', ''phase'', ''settings''].
           member message ''type'' \<noteq> Some (JStr t)"
    and "msg \<noteq> JNull"
    and "\<forall>t \<in> set [''gameState'', ''input'', ''phase'']. member msg ''type'' \<noteq> Some (JStr t)"
    and "member gsm ''type'' = Some (JStr ''gameState'')"
    and "pg_role pn \<noteq> Guest" and "ms_role mn \<noteq> Guest"
    and "member inp2 ''type'' = Some (JStr ''input'')"
    and "pg_role pm \<noteq> Host" and "ms_role mm \<noteq> Host"
    and "member inp ''type'' = Some (JStr ''input'')"
    and "member inp ''direction'' \<noteq> Some (JStr ''up'')"
    and "member inp ''direction'' \<noteq> Some (JStr ''down'')"
    and "pg_gameState ph = WS g"
    and "member sinp ''type'' = Some (JStr ''input'')"
    and "\<not> truthy (member sinp ''direction'')"
    and "member phm ''type'' = Some (JStr ''phase'')"
    and "member phm ''phase'' \<noteq> Some (JStr ''countdown'')"
    and "member phm ''phase'' \<noteq> Some (JStr ''playing'')"
    and "member stm ''type'' = Some (JStr ''settings'')"
    and "num_member stm ''ballSpeed'' = None"
  shows "PongGame_onmessage (Some message) p = (None, p)
       \<and> MultiSnake_onmessage (Some msg) m = (None, m)
       \<and> PongGame_onmessage (Some gsm) pn = (None, pn)
       \<and> MultiSnake_onmessage (Some gsm) mn = (None, mn)
       \<and> PongGame_onmessage (Some inp2) pm = (None, pm)
       \<and> MultiSnake_onmessage (Some inp2) mm = (None, mm)
       \<and> PongGame_onmessage (Some inp) ph = (None, ph)
       \<and> MultiSnake_onmessage (Some sinp) m = (None, m)
       \<and> PongGame_onmessage (Some phm) p = (None, p)
       \<and> MultiSnake_onmessage (Some phm) m = (None, m)
       \<and> PongGame_onmessage (Some stm) p = (None, p)
       \<and> PongGame_onmessage None p = (Some SyntaxError, p)
       \<and> MultiSnake_onmessage None m = (Some SyntaxError, m)
       \<and> PongGame_onmessage (Some JNull) p = (Some TypeError, p)
       \<and> MultiSnake_onmessage (Some JNull) m = (Some TypeError, m)"
proof -
  have unknown: "PongGame_onmessage (Some message) p = (None, p)"
    "MultiSnake_onmessage (Some msg) m = (None, m)"
    using assms(1-4) by (simp_all add: PongGame_onmessage_def MultiSnake_onmessage_def Let_def)
  have role: "PongGame_onmessage (Some gsm) pn = (None, pn)"
    "MultiSnake_onmessage (Some gsm) mn = (None, mn)"
    "PongGame_onmessage (Some inp2) pm = (None, pm)"
    "MultiSnake_onmessage (Some inp2) mm = (None, mm)"
    using assms(5-10) typed_not_null[OF assms(5)] typed_not_null[OF assms(8)]
    by (simp_all add: PongGame_onmessage_def MultiSnake_onmessage_def Let_def)
  have inp: "PongGame_onmessage (Some inp) ph = (None, ph)"
    using assms(11-14) typed_not_null[OF assms(11)]
    by (simp add: PongGame_onmessage_def Let_def)
  have sinp: "MultiSnake_onmessage (Some sinp) m = (None, m)"
    using assms(15,16) typed_not_null[OF assms(15)]
    by (auto simp: MultiSnake_onmessage_def Let_def split: option.splits)
  have phm: "PongGame_onmessage (Some phm) p = (None, p)"
    "MultiSnake_onmessage (Some phm) m = (None, m)"
    using assms(17-19) typed_not_null[OF assms(17)]
    by (simp_all add: PongGame_onmessage_def MultiSnake_onmessage_def Let_def)
  have stm: "PongGame_onmessage (Some stm) p = (None, p)"
    using assms(20) typed_not_null[OF assms(20)] num_member_None[OF assms(21)]
    by (simp add: PongGame_onmessage_def Let_def)
  have bad: "PongGame_onmessage None p = (Some SyntaxError, p)"
    "MultiSnake_onmessage None m = (Some SyntaxError, m)"
    "PongGame_onmessage (Some JNull) p = (Some TypeError, p)"
    "MultiSnake_onmessage (Some JNull) m = (Some TypeError, m)"
    by (simp_all add: PongGame_onmessage_def MultiSnake_onmessage_def)
  show ?thesis
    using unknown role inp sinp phm stm bad by simp
qed

text \<open>
  Sessions with an open channel: the guest of the paddle game and the host of the chase
  game in its countdown receive a \<open>chat\<close> message, a \<open>settings\<close> message (unknown to the
  chase game, without a number for the paddle game), a \<open>phase\<close> message naming the phase
  \<open>over\<close>, and text that is not JSON; the hosts receive a \<open>gameState\<close> message and an \<open>input\<close>
  message that names no direction, the guests an \<open>input\<close> message.
\<close>

theorem unknown_message_dropped_witness:
  "pg_channel pongGuestOpened = Some Open \<and> pg_channel pongHostOpened = Some Open
   \<and> ms_channel snakeHostOpened = Some Open \<and> ms_channel snakeGuestOpened = Some Open
   \<and> pg_role pongHostOpened = Host \<and> pg_role pongGuestOpened = Guest
   \<and> ms_role snakeHostOpened = Host \<and> ms_role snakeGuestOpened = Guest
   \<and> pg_gameState pongHostOpened = WS (initialGameState 5)
   \<and> member (JObj [(''type'', JStr ''chat''), (''text'', JStr ''hi'')]) ''type'' = Some (JStr ''chat'')
   \<and> num_member (JObj [(''type'', JStr ''settings''), (''ballSpeed'', JStr ''fast'')]) ''ballSpeed'' = None
   \<and> \<not> truthy (member (JObj [(''type'', JStr ''input'')]) ''direction'')
   \<and> PongGame_onmessage (Some (JObj [(''type'', JStr ''chat''), (''text'', JStr ''hi'')])) pongGuestOpened
       = (None, pongGuestOpened)
   \<and> MultiSnake_onmessage (Some (msg_settings 7)) snakeHostOpened = (None, snakeHostOpened)
   \<and> PongGame_onmessage (Some (JObj [(''type'', JStr ''gameState'')])) pongHostOpened
       = (None, pongHostOpened)
   \<and> MultiSnake_onmessage (Some (JObj [(''type'', JStr ''gameState'')])) snakeHostOpened
       = (None, snakeHostOpened)
   \<and> MultiSnake_onmessage (Some (msg_input ''up'')) snakeGuestOpened = (None, snakeGuestOpened)
   \<and> PongGame_onmessage (Some (msg_input ''left'')) pongHostOpened = (None, pongHostOpened)
   \<and> MultiSnake_onmessage (Some (JObj [(''type'', JStr ''input'')])) snakeHostOpened
       = (None, snakeHostOpened)
   \<and> PongGame_onmessage (Some (JObj [(''type'', JStr ''phase''), (''phase'', JStr ''over'')]))
        pongGuestOpened = (None, pongGuestOpened)
   \<and> MultiSnake_onmessage (Some (JObj [(''type'', JStr ''phase''), (''phase'', JStr ''over'')]))
        snakeHostOpened = (None, snakeHostOpened)
   \<and> PongGame_onmessage (Some (JObj [(''type'', JStr ''settings''), (''ballSpeed'', JStr ''fast'')]))
        pongGuestOpened = (None, pongGuestOpened)
   \<and> PongGame_onmessage None pongGuestOpened = (Some SyntaxError, pongGuestOpened)
   \<and> MultiSnake_onmessage None snakeHostOpened = (Some SyntaxError, snakeHostOpened)"
proof -
  have u: "JObj [(''type'', JStr ''chat''), (''text'', JStr ''hi'')] \<noteq> JNull"
    "\<forall>t \<in> set [''gameState'', ''input'', ''hostFace'', ''guestFace'', ''phase'', ''settings''].
         member (JObj [(''type'', JStr ''chat''), (''text'', JStr ''hi'')]) ''type'' \<noteq> Some (JStr t)"
    by simp_all
  have v: "msg_settings 7 \<noteq> JNull"
    "\<forall>t \<in> set [''gameState'', ''input'', ''phase'']. member (msg_settings 7) ''type'' \<noteq> Some (JStr t)"
    by (simp_all add: msg_settings_def)
  have gs: "member (JObj [(''type'', JStr ''gameState'')]) ''type'' = Some (JStr ''gameState'')"
    "pg_role pongHostOpened \<noteq> Guest" "ms_role snakeHostOpened \<noteq> Guest"
    by (simp_all add: pongHostOpened_eq snakeHostOpened_eq)
  have i2: "member (msg_input ''up'') ''type'' = Some (JStr ''input'')"
    "pg_role pongGuestOpened \<noteq> Host" "ms_role snakeGuestOpened \<noteq> Host"
    by (simp_all add: msg_input_def pongGuestOpened_eq snakeGuestOpened_eq)
  have i: "member (msg_input ''left'') ''type'' = Some (JStr ''input'')"
    "member (msg_input ''left'') ''direction'' \<noteq> Some (JStr ''up'')"
    "member (msg_input ''left'') ''direction'' \<noteq> Some (JStr ''down'')"
    "pg_gameState pongHostOpened = WS (initialGameState 5)"
    by (simp_all add: msg_input_def pongHostOpened_eq PongGame_init_def)
  have si: "member (JObj [(''type'', JStr ''input'')]) ''type'' = Some (JStr ''input'')"
    "\<not> truthy (member (JObj [(''type'', JStr ''input'')]) ''direction'')"
    by simp_all
  have ph: "member (JObj [(''type'', JStr ''phase''), (''phase'', JStr ''over'')]) ''type''
              = Some (JStr ''phase'')"
    "member (JObj [(''type'', JStr ''phase''), (''phase'', JStr ''over'')]) ''phase''
       \<noteq> Some (JStr ''countdown'')"
    "member (JObj [(''type'', JStr ''phase''), (''phase'', JStr ''over'')]) ''phase''
       \<noteq> Some (JStr ''playing'')"
    by simp_all
  have st: "member (JObj [(''type'', JStr ''settings''), (''ballSpeed'', JStr ''fast'')]) ''type''
              = Some (JStr ''settings'')"
    "num_member (JObj [(''type'', JStr ''settings''), (''ballSpeed'', JStr ''fast'')]) ''ballSpeed'' = None"
    by (simp_all add: num_member_def)
  have e: "pg_channel pongGuestOpened = Some Open" "pg_channel pongHostOpened = Some Open"
    "ms_channel snakeHostOpened = Some Open" "ms_channel snakeGuestOpened = Some Open"
    "pg_role pongHostOpened = Host" "pg_role pongGuestOpened = Guest"
    "ms_role snakeHostOpened = Host" "ms_role snakeGuestOpened = Guest"
    "member (JObj [(''type'', JStr ''chat''), (''text'', JStr ''hi'')]) ''type'' = Some (JStr ''chat'')"
    by (simp_all add: pongHostOpened_eq pongGuestOpened_eq snakeHostOpened_eq snakeGuestOpened_eq
        PongGame_init_def MultiSnake_init_def)
  show ?thesis
    using e i(4) st(2) si(2)
      unknown_message_dropped[OF u v gs i2 i si ph st, of pongGuestOpened snakeHostOpened]
    by simp
qed

text \<open>
  What is not dropped. A guest of the paddle game, its channel open, receives a
  \<open>gameState\<close> message without \<open>state\<close>: the handler has overwritten the world state with
  \<open>undefined\<close> when the destructuring of \<open>message.state\<close> throws, and the next animation
  frame throws at the sprite writes and requests no further frame. The same guest
  receives a face message without \<open>data\<close>, which replaces the picture it had by
  \<open>undefined\<close>. A guest of the chase game receives a \<open>gameState\<close> message without \<open>state\<close>:
  the same, in \<open>applyStateFromHost\<close>. A host of the chase game receives an \<open>input\<close> message
  whose direction is \<open>sideways\<close>: it becomes the pending direction, and the next step
  throws. A \<open>phase\<close> message naming the countdown is applied whatever its \<open>countdown\<close> is.
  And text that is not JSON makes \<open>JSON.parse\<close> throw out of the handler.
\<close>

theorem malformed_message_counterexample:
  "pg_channel pongGuestOpened = Some Open \<and> pg_role pongGuestOpened = Guest
   \<and> pg_gameState pongGuestOpened = WS (initialGameState 5) \<and> pg_gameLoop pongGuestOpened
   \<and> PongGame_onmessage (Some (JObj [(''type'', JStr ''gameState'')])) pongGuestOpened
       = (Some TypeError, pongGuestOpened\<lparr>pg_gameState := Raw None\<rparr>)
   \<and> PongGame_frame 0 0 (pongGuestOpened\<lparr>pg_gameState := Raw None\<rparr>)
       = (Some TypeError, pongGuestOpened\<lparr>pg_gameState := Raw None, pg_gameLoop := False\<rparr>)
   \<and> PongGame_onmessage (Some (msg_face ''hostFace'' (JStr ''data:image/png;base64,AAAA'')))
        pongGuestOpened
       = (None, pongGuestOpened\<lparr>pg_hostFaceImage := Some (JStr ''data:image/png;base64,AAAA'')\<rparr>)
   \<and> PongGame_onmessage (Some (JObj [(''type'', JStr ''hostFace'')]))
        (pongGuestOpened\<lparr>pg_hostFaceImage := Some (JStr ''data:image/png;base64,AAAA'')\<rparr>)
       = (None, pongGuestOpened\<lparr>pg_hostFaceImage := None\<rparr>)
   \<and> ms_channel snakeGuestOpened = Some Open \<and> ms_role snakeGuestOpened = Guest
   \<and> MultiSnake_onmessage (Some (JObj [(''type'', JStr ''gameState'')])) snakeGuestOpened
       = (Some TypeError, snakeGuestOpened\<lparr>ms_gameState := Raw None\<rparr>)
   \<and> ms_channel snakeHostPlaying = Some Open \<and> ms_role snakeHostPlaying = Host
   \<and> MultiSnake_onmessage (Some (msg_input ''sideways'')) snakeHostPlaying
       = (None, snakeHostPlaying\<lparr>ms_dir2Ref := JStr ''sideways''\<rparr>)
   \<and> fst (MultiSnake_interval [] (snakeHostPlaying\<lparr>ms_dir2Ref := JStr ''sideways''\<rparr>))
       = Some TypeError
   \<and> MultiSnake_onmessage
       (Some (JObj [(''type'', JStr ''phase''), (''phase'', JStr ''countdown''),
                    (''countdown'', JStr ''soon'')])) snakeGuestOpened
       = (None, snakeGuestOpened\<lparr>ms_gamePhase := Countdown, ms_gamePhaseRef := Countdown,
                                  ms_countdown := JStr ''soon''\<rparr>)
   \<and> fst (PongGame_onmessage None pongGuestOpened) = Some SyntaxError
   \<and> fst (MultiSnake_onmessage None snakeGuestOpened) = Some SyntaxError"
  by (simp add: pongGuestOpened_eq snakeGuestOpened_eq snakeHostPlaying_eq
      PongGame_onmessage_def MultiSnake_onmessage_def applyStateFromHost_def Let_def
      PongGame_init_def MultiSnake_init_def to_wstate_def msg_face_def msg_input_def
      PongGame_frame_def PongGame_updateGame_def sprite_fault_def opposite_of_def
      MultiSnake_interval_def MultiSnake_stepGame_def advance_throws_def inherited_names_def)
section \<open>Ending a session\<close>

text \<open>
  C9 at a failing input. The host's channel has just opened: the countdown shows 3 and
  its timer is pending. The user ends the session. \<open>endSession\<close> stops the frame loop (the
  paddle game) or the step interval (the chase game), resets role and phase, and leaves the
  countdown timer pending: its callback runs after the session has returned to idle,
  counts on (2, 1, 0) and at zero sets the phase to playing, in a session that has no
  role.
\<close>

theorem end_session_leaves_countdown_running:
  "pg_role (PongGame_endSession (PongGame_onopen (PongGame_createGame PongGame_init))) = RoleNone
   \<and> pg_gamePhase (PongGame_endSession (PongGame_onopen (PongGame_createGame PongGame_init))) = PIdle
   \<and> \<not> pg_gameLoop (PongGame_endSession (PongGame_onopen (PongGame_createGame PongGame_init)))
   \<and> pg_countdownTimer (PongGame_endSession (PongGame_onopen (PongGame_createGame PongGame_init)))
       = Some 2
   \<and> pg_countdown (PongGame_timeout
        (PongGame_endSession (PongGame_onopen (PongGame_createGame PongGame_init)))) = JNum 2
   \<and> pg_gamePhase ((PongGame_timeout ^^ 3)
        (PongGame_endSession (PongGame_onopen (PongGame_createGame PongGame_init)))) = PPlaying
   \<and> fst (MultiSnake_endSession (snd (MultiSnake_onopen [(1 / 2, 1 / 4)]
        (snd (MultiSnake_createGame [(1 / 2, 1 / 4)] MultiSnake_init))))) = None
   \<and> ms_gamePhaseRef (snd (MultiSnake_endSession (snd (MultiSnake_onopen [(1 / 2, 1 / 4)]
        (snd (MultiSnake_createGame [(1 / 2, 1 / 4)] MultiSnake_init)))))) = Idle
   \<and> ms_interval (snd (MultiSnake_endSession (snd (MultiSnake_onopen [(1 / 2, 1 / 4)]
        (snd (MultiSnake_createGame [(1 / 2, 1 / 4)] MultiSnake_init)))))) = None
   \<and> ms_countdownTimer (snd (MultiSnake_endSession (snd (MultiSnake_onopen [(1 / 2, 1 / 4)]
        (snd (MultiSnake_createGame [(1 / 2, 1 / 4)] MultiSnake_init)))))) = Some 2
   \<and> ms_countdown (MultiSnake_timeout (snd (MultiSnake_endSession (snd (MultiSnake_onopen [(1 / 2, 1 / 4)]
        (snd (MultiSnake_createGame [(1 / 2, 1 / 4)] MultiSnake_init))))))) = JNum 2
   \<and> ms_gamePhaseRef ((MultiSnake_timeout ^^ 3) (snd (MultiSnake_endSession (snd (MultiSnake_onopen [(1 / 2, 1 / 4)]
        (snd (MultiSnake_createGame [(1 / 2, 1 / 4)] MultiSnake_init))))))) = Playing"
proof -
  have f: "\<lfloor>(1::real) / 2 * 24\<rfloor> = 12" "\<lfloor>(1::real) / 4 * 16\<rfloor> = 4" by simp_all
  show ?thesis
    by (simp add: numeral_3_eq_3 PongGame_endSession_def PongGame_onopen_def PongGame_createGame_def
        PongGame_init_def PongGame_startCountdown_def PongGame_tick_def PongGame_timeout_def
        setConnected_def stopGameLoop_def resetState_def pg_channel_send_def pg_send_def Let_def
        MultiSnake_endSession_def MultiSnake_onopen_def MultiSnake_createGame_def
        MultiSnake_init_def MultiSnake_startCountdown_def MultiSnake_tick_def
        MultiSnake_timeout_def resetGameState_def stopInterval_def ms_send_def
        randomCell_def startSnake1_def startSnake2_def f)
qed

section \<open>Turning the snake\<close>

text \<open>
  C10 at a failing input. The host's snake moves right (the direction of its last
  step). Before the next step the host presses ArrowUp and then ArrowLeft: each key is
  compared with the pending direction, not with the direction of the last step, so both
  pass; the next step moves the snake left, into its own neck, and the game is over.
\<close>

theorem direction_reverses_between_steps:
  "dir1 openingState = json_of_Direction Right
   \<and> ms_dir1Ref (playingHost openingState) = json_of_Direction Right
   \<and> MultiSnake_handleKeyDown ''ArrowLeft'' (playingHost openingState) = (None, playingHost openingState)
   \<and> ms_dir1Ref (snd (MultiSnake_handleKeyDown ''ArrowLeft''
        (snd (MultiSnake_handleKeyDown ''ArrowUp'' (playingHost openingState)))))
       = json_of_Direction (opposite Right)
   \<and> ms_gameState (snd (MultiSnake_stepGame []
        (snd (MultiSnake_handleKeyDown ''ArrowLeft''
          (snd (MultiSnake_handleKeyDown ''ArrowUp'' (playingHost openingState)))))))
       = WS (openingState\<lparr>dir1 := json_of_Direction (opposite Right), phase := Over\<rparr>)"
  by (simp add: MultiSnake_handleKeyDown_def MultiSnake_stepGame_def playingHost_def
      MultiSnake_init_def openingState_def arrowKey_def opposite_of_def Let_def advance_def
      anyCrash_def hits_def startSnake1_def startSnake2_def stopInterval_def ms_send_def)

end
